theory Spec2Isabelle
  imports Main "HOL-Library.Sublist"
begin

section \<open>JavaScript values the client looks at\<close>

text \<open>
  Strings are lists of characters. A value that may be \<^verbatim>\<open>undefined\<close> (or \<^verbatim>\<open>null\<close>)
  is an option. The operator \<^verbatim>\<open>||\<close> takes its right operand when the left one is falsy:
  \<^verbatim>\<open>undefined\<close>, \<^verbatim>\<open>null\<close>, the empty string and the number 0 are falsy.
\<close>

definition truthy :: "string option \<Rightarrow> bool" where
  "truthy v = (case v of None \<Rightarrow> False | Some s \<Rightarrow> s \<noteq> [])"

definition js_or :: "string option \<Rightarrow> string option \<Rightarrow> string option" where
  "js_or a b = (if truthy a then a else b)"

definition js_or_string :: "string option \<Rightarrow> string \<Rightarrow> string" where
  "js_or_string a d = (case a of None \<Rightarrow> d | Some s \<Rightarrow> if s \<noteq> [] then s else d)"

definition js_or_number :: "nat option \<Rightarrow> nat \<Rightarrow> nat" where
  "js_or_number a d = (case a of None \<Rightarrow> d | Some n \<Rightarrow> if n \<noteq> 0 then n else d)"

text \<open>
  The decimal text of a number, as a template literal \<^verbatim>\<open>${n}\<close> prints it. The numbers
  printed by the client are HTTP status codes and millisecond counts: natural numbers.
\<close>

function string_of_nat :: "nat \<Rightarrow> string" where
  "string_of_nat n =
     (if n < 10 then [''0123456789'' ! n]
      else string_of_nat (n div 10) @ [''0123456789'' ! (n mod 10)])"
  by pat_completeness auto
termination
  by (relation "measure id") auto

declare string_of_nat.simps [simp del]

text \<open>
  An argument whose run-time type the code tests with \<^verbatim>\<open>typeof\<close>: a string, or any other
  value, of which only its truthiness is seen.
\<close>

datatype js_value = JsString string | JsOther bool

fun js_truthy :: "js_value \<Rightarrow> bool" where
  "js_truthy (JsString s) = (s \<noteq> [])"
| "js_truthy (JsOther t) = t"

fun is_string :: "js_value \<Rightarrow> bool" where
  "is_string (JsString s) = True"
| "is_string (JsOther t) = False"

section \<open>Response bodies (src/types)\<close>

text \<open>
  A parsed JSON body has the TypeScript type \<^verbatim>\<open>unknown\<close>; the client reads it through the
  interfaces it casts it to: \<^verbatim>\<open>APIErrorResponse\<close> (\<^verbatim>\<open>message?\<close>, \<^verbatim>\<open>error?\<close>),
  \<^verbatim>\<open>StartTTSResponse\<close> (\<^verbatim>\<open>generation_id\<close>) and \<^verbatim>\<open>TTSStatusResponse\<close> (\<^verbatim>\<open>status\<close>,
  \<^verbatim>\<open>url\<close>, \<^verbatim>\<open>generation_id?\<close>). A cast does nothing at run time, so one record holds the
  properties the client ever reads, each at its declared type (a string), \<open>None\<close> when the
  property is absent; for \<^verbatim>\<open>url\<close>, whose declared type is \<^verbatim>\<open>string | null\<close>, \<open>None\<close> also
  stands for \<^verbatim>\<open>null\<close>. The other properties are not declared to be \<^verbatim>\<open>null\<close>, and a body
  where one is lies outside the model. Properties the client never reads (\<^verbatim>\<open>details\<close>,
  \<^verbatim>\<open>voices\<close>, ...) are left out. A body that is not JSON is the text itself.
\<close>

record JsonObject =
  message :: "string option"
  error :: "string option"
  generation_id :: "string option"
  status :: "string option"
  url :: "string option"

datatype response_data = JsonData JsonObject | TextData string

text \<open>Reading a property through \<^verbatim>\<open>?.\<close>: a string has none of these properties.\<close>

definition get_prop :: "(JsonObject \<Rightarrow> string option) \<Rightarrow> response_data option \<Rightarrow> string option" where
  "get_prop field response =
     (case response of
        None \<Rightarrow> None
      | Some (TextData s) \<Rightarrow> None
      | Some (JsonData obj) \<Rightarrow> field obj)"

section \<open>Error taxonomy (src/errors.ts)\<close>

datatype AudixaErrorCode =
    INVALID_PARAMS
  | INVALID_API_KEY
  | INSUFFICIENT_CREDITS
  | FORBIDDEN
  | NOT_FOUND
  | UNAUTHORIZED
  | NETWORK_ERROR
  | TIMEOUT
  | UNKNOWN

definition getErrorCodeFromStatus :: "nat \<Rightarrow> AudixaErrorCode" where
  "getErrorCodeFromStatus st =
     (if st = 400 then INVALID_PARAMS
      else if st = 401 then INVALID_API_KEY
      else if st = 402 then INSUFFICIENT_CREDITS
      else if st = 403 then FORBIDDEN
      else if st = 404 then NOT_FOUND
      else UNKNOWN)"

record AudixaError =
  message :: string
  code :: AudixaErrorCode
  status :: "nat option"
  response :: "response_data option"

definition AudixaError_new ::
  "string \<Rightarrow> AudixaErrorCode \<Rightarrow> nat option \<Rightarrow> response_data option \<Rightarrow> AudixaError" where
  "AudixaError_new msg c st resp =
     \<lparr>AudixaError.message = msg, code = c, AudixaError.status = st, response = resp\<rparr>"

definition fromResponse :: "nat \<Rightarrow> response_data option \<Rightarrow> AudixaError" where
  "fromResponse st resp =
     (let c = getErrorCodeFromStatus st;
          msg = js_or_string (js_or (get_prop JsonObject.message resp) (get_prop JsonObject.error resp))
                  (''Request failed with status '' @ string_of_nat st)
      in AudixaError_new msg c (Some st) resp)"

definition networkError :: "string \<Rightarrow> AudixaError" where
  "networkError originalMessage =
     AudixaError_new (''Network error: '' @ originalMessage) NETWORK_ERROR None None"

definition timeout_error :: AudixaError where
  "timeout_error = AudixaError_new ''Request timed out'' TIMEOUT None None"

text \<open>
  What a \<^verbatim>\<open>throw\<close> can carry: an \<^verbatim>\<open>AudixaError\<close>, another \<^verbatim>\<open>Error\<close> object (with its
  \<^verbatim>\<open>name\<close> and \<^verbatim>\<open>message\<close>), or a value that is no \<^verbatim>\<open>Error\<close> at all. The platform
  (\<^verbatim>\<open>fetch\<close>, \<^verbatim>\<open>new URL\<close>, the body readers) throws only the latter two.
\<close>

datatype js_exception = Error string string | NonError

datatype thrown = AudixaErr AudixaError | Js js_exception

fun kind :: "thrown \<Rightarrow> AudixaErrorCode option" where
  "kind (AudixaErr e) = Some (code e)"
| "kind (Js x) = None"

section \<open>Abort signals and controllers (the platform's)\<close>

text \<open>
  Signals live in a store, addressed by their index, since several parties hold the same
  signal: the caller, the timer and \<^verbatim>\<open>fetch\<close>. A signal has its \<^verbatim>\<open>aborted\<close> flag and the
  handlers registered for its \<^verbatim>\<open>abort\<close> event. Every handler the client registers is
  \<^verbatim>\<open>() => controller.abort()\<close>, so a handler is the address of the signal of that controller.
\<close>

record AbortSignal =
  aborted :: bool
  listeners :: "nat list"

definition AbortController_new :: "AbortSignal list \<Rightarrow> nat \<times> AbortSignal list" where
  "AbortController_new h = (length h, h @ [\<lparr>aborted = False, listeners = []\<rparr>])"

definition addEventListener :: "AbortSignal list \<Rightarrow> nat \<Rightarrow> nat \<Rightarrow> AbortSignal list" where
  "addEventListener h sig target =
     (if sig < length h then h[sig := (h ! sig)\<lparr>listeners := listeners (h ! sig) @ [target]\<rparr>]
      else h)"

definition is_aborted :: "AbortSignal list \<Rightarrow> nat \<Rightarrow> bool" where
  "is_aborted h sig = (sig < length h \<and> aborted (h ! sig))"

text \<open>
  \<^verbatim>\<open>controller.abort()\<close>: nothing happens on a signal that is aborted already; otherwise the
  flag is set and the \<^verbatim>\<open>abort\<close> event runs the handlers in the order of their registration,
  each to its end before the next. The first argument is the list of aborts still to run.
\<close>

function abort_all :: "nat list \<Rightarrow> AbortSignal list \<Rightarrow> AbortSignal list" where
  "abort_all [] h = h"
| "abort_all (a # as) h =
     (if a < length h \<and> \<not> aborted (h ! a)
      then abort_all (listeners (h ! a) @ as) (h[a := (h ! a)\<lparr>aborted := True\<rparr>])
      else abort_all as h)"
  by pat_completeness auto
termination
proof -
  have less: "length (filter P (h[a := x])) < length (filter P h)"
    if "a < length h" "P (h ! a)" "\<not> P x" for P :: "AbortSignal \<Rightarrow> bool" and h a x
    using that
  proof (induction h arbitrary: a)
    case Nil
    then show ?case by simp
  next
    case (Cons y ys)
    show ?case
    proof (cases a)
      case 0
      with Cons.prems show ?thesis by simp
    next
      case (Suc k)
      with Cons.prems have "length (filter P (ys[k := x])) < length (filter P ys)"
        by (intro Cons.IH) simp_all
      with Suc show ?thesis by simp
    qed
  qed
  show ?thesis
    by (relation "measures [\<lambda>(as, h). length (filter (\<lambda>s. \<not> aborted s) h),
                            \<lambda>(as, h). length as]")
       (auto simp: less)
qed

definition abort :: "AbortSignal list \<Rightarrow> nat \<Rightarrow> AbortSignal list" where
  "abort h sig = abort_all [sig] h"

section \<open>The network, the clock and the caller\<close>

text \<open>
  What \<^verbatim>\<open>fetch\<close> answers: the status, the \<^verbatim>\<open>content-type\<close> header if there is one, and what
  the two body readers \<^verbatim>\<open>json()\<close> and \<^verbatim>\<open>text()\<close> give (each may throw). \<^verbatim>\<open>ok\<close> is the
  platform's: a status from 200 to 299.
\<close>

record Response =
  status :: nat
  content_type :: "string option"
  body_json :: "js_exception + JsonObject"
  body_text :: "js_exception + string"

definition ok :: "Response \<Rightarrow> bool" where
  "ok r = (200 \<le> Response.status r \<and> Response.status r \<le> 299)"

text \<open>
  One exchange with the server: the network settles the \<^verbatim>\<open>fetch\<close> so many milliseconds
  after the call, by a rejection (no well-formed exchange) or by a response, unless the
  signal given to \<^verbatim>\<open>fetch\<close> aborts before.
\<close>

record Exchange =
  settle_after :: nat
  settle_with :: "js_exception + Response"

text \<open>
  The URL object, as the code builds it: the text given to \<^verbatim>\<open>new URL\<close> (in \<open>href\<close>) and the
  query parameters appended to it, in their order. What \<^verbatim>\<open>toString\<close> makes of the object is
  the platform's: it parses and rewrites the text.
\<close>

record URL =
  href :: string
  searchParams :: "(string \<times> string) list"

text \<open>
  The world around a run: whether \<^verbatim>\<open>new URL\<close> throws on a text, the text \<^verbatim>\<open>toString\<close>
  gives for a URL object, when the caller aborts the signal it passed (a time on the clock,
  if ever), and the exchange that answers the n-th \<^verbatim>\<open>fetch\<close> issued.
\<close>

record World =
  url_error :: "string \<Rightarrow> js_exception option"
  url_to_string :: "URL \<Rightarrow> string"
  caller_abort_at :: "nat option"
  exchanges :: "nat \<Rightarrow> Exchange"

datatype Method = GET | POST | PUT | DELETE | PATCH

text \<open>
  A call of \<^verbatim>\<open>fetch\<close>, as logged: method, the URL object and the text \<^verbatim>\<open>url.toString()\<close>
  that is the first argument of the call, the \<^verbatim>\<open>x-api-key\<close> header, the body and the
  signal. A payload is carried as its JSON text (\<^verbatim>\<open>JSON.stringify\<close> is the platform's).
\<close>

record FetchCall =
  fetch_method :: Method
  fetch_url :: URL
  fetch_input :: string
  fetch_api_key :: string
  fetch_body :: "string option"
  fetch_signal :: nat

text \<open>The state of a run: the clock (ms), the store of signals, the calls of \<^verbatim>\<open>fetch\<close> so far.\<close>

record Runtime =
  now :: nat
  signals :: "AbortSignal list"
  fetched :: "FetchCall list"

text \<open>
  The events that can abort a signal while the code waits from \<open>t0\<close> to \<open>t1\<close>: the caller
  aborting its signal, and the timer of the request. Each is a time and the signal to abort.
  An event at the instant \<open>t1\<close> itself comes after the wait; of two events at one instant the
  caller's comes first.
\<close>

definition caller_event :: "World \<Rightarrow> nat option \<Rightarrow> nat \<Rightarrow> nat \<Rightarrow> (nat \<times> nat) list" where
  "caller_event w sig t0 t1 =
     (case sig of
        None \<Rightarrow> []
      | Some s \<Rightarrow>
          (case caller_abort_at w of
             None \<Rightarrow> []
           | Some ta \<Rightarrow> if t0 \<le> ta \<and> ta < t1 then [(ta, s)] else []))"

definition timer_event :: "nat \<Rightarrow> nat \<Rightarrow> nat \<Rightarrow> (nat \<times> nat) list" where
  "timer_event timer_at controller t1 = (if timer_at < t1 then [(timer_at, controller)] else [])"

fun in_order :: "(nat \<times> nat) list \<Rightarrow> (nat \<times> nat) list \<Rightarrow> (nat \<times> nat) list" where
  "in_order [] ys = ys"
| "in_order xs [] = xs"
| "in_order (x # xs) (y # ys) =
     (if fst x \<le> fst y then x # in_order xs (y # ys) else y # in_order (x # xs) ys)"

text \<open>Run the events until the watched signal is aborted; the time of that abort, if any.\<close>

fun run_events :: "(nat \<times> nat) list \<Rightarrow> nat \<Rightarrow> AbortSignal list \<Rightarrow> nat option \<times> AbortSignal list" where
  "run_events [] watched h = (None, h)"
| "run_events ((t, a) # es) watched h =
     (let h' = abort h a
      in if is_aborted h' watched then (Some t, h') else run_events es watched h')"

text \<open>
  \<^verbatim>\<open>await fetch(url, {signal})\<close>: a signal that is aborted already rejects the call at once;
  a signal that aborts before the network settles rejects it with an \<^verbatim>\<open>AbortError\<close> at that
  moment; otherwise the call settles as the exchange says. The timer of the request lives
  exactly as long as this wait (the code clears it on every path out of it). Left out are
  the checks \<^verbatim>\<open>fetch\<close> makes of its own arguments (it refuses a body on a \<^verbatim>\<open>GET\<close>; the client's
  operations send none) and the limit of \<^verbatim>\<open>setTimeout\<close> on delays beyond 2147483647 ms.
\<close>

definition abort_error :: js_exception where
  "abort_error = Error ''AbortError'' ''This operation was aborted''"

definition await_fetch ::
  "World \<Rightarrow> Runtime \<Rightarrow> nat \<Rightarrow> nat \<Rightarrow> nat option \<Rightarrow> nat \<Rightarrow> Exchange
   \<Rightarrow> (js_exception + Response) \<times> Runtime" where
  "await_fetch w rt timer_at controller userSignal fetchSignal ex =
     (if is_aborted (signals rt) fetchSignal then (Inl abort_error, rt)
      else
        let t1 = now rt + settle_after ex;
            evs = in_order (caller_event w userSignal (now rt) t1)
                           (timer_event timer_at controller t1);
            (fired, h) = run_events evs fetchSignal (signals rt)
        in case fired of
             Some t \<Rightarrow> (Inl abort_error, rt\<lparr>now := t, signals := h\<rparr>)
           | None \<Rightarrow> (settle_with ex, rt\<lparr>now := t1, signals := h\<rparr>))"

text \<open>\<^verbatim>\<open>await new Promise(resolve => setTimeout(resolve, ms))\<close>: the clock moves on by \<open>ms\<close>.\<close>

definition sleep :: "World \<Rightarrow> nat option \<Rightarrow> nat \<Rightarrow> Runtime \<Rightarrow> Runtime" where
  "sleep w userSignal ms rt =
     rt\<lparr>now := now rt + ms,
        signals := foldl (\<lambda>h (t, a). abort h a) (signals rt)
                     (caller_event w userSignal (now rt) (now rt + ms))\<rparr>"

section \<open>The HTTP client (src/client.ts)\<close>

definition DEFAULT_BASE_URL :: string where
  "DEFAULT_BASE_URL = ''https://api.audixa.ai/v2''"

definition DEFAULT_TIMEOUT :: nat where
  "DEFAULT_TIMEOUT = 30000"

record AudixaOptions =
  baseUrl :: "string option"
  timeout :: "nat option"

record HttpClient =
  baseUrl :: string
  timeout :: nat
  apiKey :: string

fun string_value :: "js_value \<Rightarrow> string" where
  "string_value (JsString s) = s"
| "string_value (JsOther t) = []"

definition HttpClient_new :: "js_value \<Rightarrow> AudixaOptions option \<Rightarrow> thrown + HttpClient" where
  "HttpClient_new key options =
     (if \<not> js_truthy key \<or> \<not> is_string key
      then Inl (AudixaErr (AudixaError_new ''API key is required and must be a string''
                             INVALID_PARAMS None None))
      else Inr \<lparr>HttpClient.baseUrl =
                  js_or_string (Option.bind options AudixaOptions.baseUrl) DEFAULT_BASE_URL,
                HttpClient.timeout =
                  js_or_number (Option.bind options AudixaOptions.timeout) DEFAULT_TIMEOUT,
                apiKey = string_value key\<rparr>)"

record RequestConfig =
  http_method :: Method
  path :: string
  body :: "string option"
  params :: "(string \<times> string) list option"
  signal :: "nat option"

text \<open>
  \<^verbatim>\<open>s.replace(/\/+$/, "")\<close> takes the slashes at the end of \<open>s\<close> away, all of them (the
  leftmost match of the pattern starts the last run of slashes); \<^verbatim>\<open>s.replace(/^\/+/, "")\<close>
  takes those at its start away.
\<close>

definition strip_trailing_slashes :: "string \<Rightarrow> string" where
  "strip_trailing_slashes s = rev (dropWhile (\<lambda>c. c = CHR ''/'') (rev s))"

definition strip_leading_slashes :: "string \<Rightarrow> string" where
  "strip_leading_slashes s = dropWhile (\<lambda>c. c = CHR ''/'') s"

definition combineSignals :: "AbortSignal list \<Rightarrow> nat \<Rightarrow> nat \<Rightarrow> nat \<times> AbortSignal list" where
  "combineSignals h userSignal timeoutSignal =
     (let (controller, h1) = AbortController_new h;
          h2 = addEventListener h1 userSignal controller;
          h3 = addEventListener h2 timeoutSignal controller
      in (controller, h3))"

text \<open>Lines 84 to 91: the body is read as JSON when the content type says so, else as text.\<close>

definition read_body :: "Response \<Rightarrow> js_exception + response_data" where
  "read_body r =
     (if (case content_type r of None \<Rightarrow> False | Some ct \<Rightarrow> sublist ''application/json'' ct)
      then map_sum id JsonData (body_json r)
      else map_sum id TextData (body_text r))"

text \<open>The \<^verbatim>\<open>catch\<close> block, lines 102 to 123: what it throws for what it caught.\<close>

definition catch_block :: "AbortSignal list \<Rightarrow> nat option \<Rightarrow> thrown \<Rightarrow> thrown" where
  "catch_block h sig err =
     (case err of
        AudixaErr e \<Rightarrow> AudixaErr e
      | Js (Error name msg) \<Rightarrow>
          if name = ''AbortError''
          then (if (case sig of None \<Rightarrow> False | Some s \<Rightarrow> is_aborted h s)
                then AudixaErr (AudixaError_new ''Request was cancelled'' UNKNOWN None None)
                else AudixaErr timeout_error)
          else AudixaErr (networkError msg)
      | Js NonError \<Rightarrow> AudixaErr (AudixaError_new ''An unknown error occurred'' UNKNOWN None None))"

definition request ::
  "HttpClient \<Rightarrow> RequestConfig \<Rightarrow> World \<Rightarrow> Runtime \<Rightarrow> (thrown + response_data) \<times> Runtime" where
  "request c config w rt =
     (let baseWithoutTrailingSlash = strip_trailing_slashes (HttpClient.baseUrl c);
          pathWithoutLeadingSlash = strip_leading_slashes (path config);
          address = baseWithoutTrailingSlash @ ''/'' @ pathWithoutLeadingSlash
      in case url_error w address of
           Some x \<Rightarrow> (Inl (Js x), rt)
         | None \<Rightarrow>
             let u = \<lparr>href = address,
                      searchParams = (case params config of None \<Rightarrow> [] | Some ps \<Rightarrow> ps)\<rparr>;
                 (controller, h1) = AbortController_new (signals rt);
                 timer_at = now rt + HttpClient.timeout c;
                 (combinedSignal, h2) =
                   (case signal config of
                      Some s \<Rightarrow> combineSignals h1 s controller
                    | None \<Rightarrow> (controller, h1));
                 call = \<lparr>fetch_method = http_method config, fetch_url = u,
                         fetch_input = url_to_string w u,
                         fetch_api_key = apiKey c, fetch_body = body config,
                         fetch_signal = combinedSignal\<rparr>;
                 (settled, rt') =
                   await_fetch w (rt\<lparr>signals := h2, fetched := fetched rt @ [call]\<rparr>)
                     timer_at controller (signal config) combinedSignal
                     (exchanges w (length (fetched rt)));
                 attempt =
                   (case settled of
                      Inl x \<Rightarrow> Inl (Js x)
                    | Inr resp \<Rightarrow>
                        (case read_body resp of
                           Inl x \<Rightarrow> Inl (Js x)
                         | Inr responseData \<Rightarrow>
                             if \<not> ok resp
                             then Inl (AudixaErr (fromResponse (Response.status resp)
                                                    (Some responseData)))
                             else Inr responseData))
             in (case attempt of
                   Inl err \<Rightarrow> Inl (catch_block (signals rt') (signal config) err)
                 | Inr responseData \<Rightarrow> Inr responseData,
                 rt'))"

section \<open>The client's operations (src/index.ts)\<close>

record RequestOptions =
  signal :: "nat option"

record GenerateOptions = RequestOptions +
  pollInterval :: "nat option"
  maxWaitTime :: "nat option"

record Audixa =
  client :: HttpClient

datatype TTSModel = base | advance

fun model_name :: "TTSModel \<Rightarrow> string" where
  "model_name base = ''base''"
| "model_name advance = ''advance''"

definition Audixa_new :: "js_value \<Rightarrow> AudixaOptions option \<Rightarrow> thrown + Audixa" where
  "Audixa_new key options =
     (case HttpClient_new key options of
        Inl err \<Rightarrow> Inl err
      | Inr c \<Rightarrow> Inr \<lparr>client = c\<rparr>)"

definition startTTS ::
  "Audixa \<Rightarrow> string \<Rightarrow> RequestOptions option \<Rightarrow> World \<Rightarrow> Runtime
   \<Rightarrow> (thrown + response_data) \<times> Runtime" where
  "startTTS a payload options =
     request (client a)
       \<lparr>http_method = POST, path = ''/tts'', body = Some payload, params = None,
        RequestConfig.signal = Option.bind options RequestOptions.signal\<rparr>"

definition getStatus ::
  "Audixa \<Rightarrow> string \<Rightarrow> RequestOptions option \<Rightarrow> World \<Rightarrow> Runtime
   \<Rightarrow> (thrown + response_data) \<times> Runtime" where
  "getStatus a generationId options =
     request (client a)
       \<lparr>http_method = GET, path = ''/status'', body = None,
        params = Some [(''generation_id'', generationId)],
        RequestConfig.signal = Option.bind options RequestOptions.signal\<rparr>"

definition getVoices ::
  "Audixa \<Rightarrow> TTSModel \<Rightarrow> RequestOptions option \<Rightarrow> World \<Rightarrow> Runtime
   \<Rightarrow> (thrown + response_data) \<times> Runtime" where
  "getVoices a model options =
     request (client a)
       \<lparr>http_method = GET, path = ''/voices'', body = None,
        params = Some [(''model'', model_name model)],
        RequestConfig.signal = Option.bind options RequestOptions.signal\<rparr>"

text \<open>
  The loop of \<^verbatim>\<open>generateTTS\<close>, lines 609 to 634. It has no bound of its own, so the model
  counts the iterations it may still take: \<open>None\<close> says that they were used up before the
  loop ended.
\<close>

fun poll ::
  "nat \<Rightarrow> Audixa \<Rightarrow> string \<Rightarrow> nat \<Rightarrow> nat \<Rightarrow> nat \<Rightarrow> nat option \<Rightarrow> World \<Rightarrow> Runtime
   \<Rightarrow> ((thrown + string) \<times> Runtime) option" where
  "poll 0 a generationId startTime interval maxWait sig w rt = None"
| "poll (Suc fuel) a generationId startTime interval maxWait sig w rt =
     (if now rt - startTime > maxWait
      then Some (Inl (Js (Error ''Error''
                   (''Generation timed out after '' @ string_of_nat maxWait @ ''ms''))), rt)
      else if (case sig of None \<Rightarrow> False | Some s \<Rightarrow> is_aborted (signals rt) s)
      then Some (Inl (Js (Error ''Error'' ''Generation was cancelled'')), rt)
      else
        (case getStatus a generationId (Some \<lparr>RequestOptions.signal = sig\<rparr>) w rt of
           (Inl err, rt') \<Rightarrow> Some (Inl err, rt')
         | (Inr st, rt') \<Rightarrow>
             if get_prop JsonObject.status (Some st) = Some ''Completed''
                \<and> truthy (get_prop JsonObject.url (Some st))
             then Some (Inr (js_or_string (get_prop JsonObject.url (Some st)) []), rt')
             else if get_prop JsonObject.status (Some st) = Some ''Failed''
             then Some (Inl (Js (Error ''Error'' ''TTS generation failed'')), rt')
             else poll fuel a generationId startTime interval maxWait sig w
                    (sleep w sig interval rt')))"

text \<open>
  \<^verbatim>\<open>generateTTS\<close>. The identifier destructured from the answer of \<^verbatim>\<open>startTTS\<close> is
  \<^verbatim>\<open>undefined\<close> when the answer has none; as a query parameter that is the text
  \<^verbatim>\<open>undefined\<close>.
\<close>

definition generateTTS ::
  "nat \<Rightarrow> Audixa \<Rightarrow> string \<Rightarrow> GenerateOptions option \<Rightarrow> World \<Rightarrow> Runtime
   \<Rightarrow> ((thrown + string) \<times> Runtime) option" where
  "generateTTS fuel a payload options w rt =
     (let interval = (case Option.bind options pollInterval of None \<Rightarrow> 1000 | Some p \<Rightarrow> p);
          maxWait = (case Option.bind options maxWaitTime of None \<Rightarrow> 120000 | Some m \<Rightarrow> m);
          sig = Option.bind options RequestOptions.signal
      in case startTTS a payload (Some \<lparr>RequestOptions.signal = sig\<rparr>) w rt of
           (Inl err, rt') \<Rightarrow> Some (Inl err, rt')
         | (Inr started, rt') \<Rightarrow>
             let generationId =
                   (case get_prop JsonObject.generation_id (Some started) of
                      None \<Rightarrow> ''undefined''
                    | Some g \<Rightarrow> g);
                 startTime = now rt'
             in poll fuel a generationId startTime interval maxWait sig w rt')"

section \<open>Sample values\<close>

definition empty_object :: JsonObject where
  "empty_object = \<lparr>JsonObject.message = None, error = None, generation_id = None,
                    JsonObject.status = None, url = None\<rparr>"

definition json_response :: "nat \<Rightarrow> JsonObject \<Rightarrow> Response" where
  "json_response st obj =
     \<lparr>Response.status = st, content_type = Some ''application/json'',
      body_json = Inr obj, body_text = Inl (Error ''TypeError'' ''Body is unusable'')\<rparr>"

definition answer :: "nat \<Rightarrow> Response \<Rightarrow> Exchange" where
  "answer ms r = \<lparr>settle_after = ms, settle_with = Inr r\<rparr>"

definition sample_client :: HttpClient where
  "sample_client = \<lparr>HttpClient.baseUrl = ''https://x/v2/'', HttpClient.timeout = 30000,
                     apiKey = ''key''\<rparr>"

definition start_runtime :: Runtime where
  "start_runtime = \<lparr>now = 0, signals = [], fetched = []\<rparr>"

definition get_config :: "string \<Rightarrow> nat option \<Rightarrow> RequestConfig" where
  "get_config p sig = \<lparr>http_method = GET, path = p, body = None, params = None,
                        RequestConfig.signal = sig\<rparr>"

text \<open>
  A sample of what \<^verbatim>\<open>toString\<close> does with a URL object, after the URL standard: the text is
  cut at its slashes; the scheme and the host stay; in the path a segment \<^verbatim>\<open>.\<close> is dropped
  and a segment \<^verbatim>\<open>..\<close> takes the segment before it away (either leaves an empty segment when
  it is the last); a text without a path gets the path \<^verbatim>\<open>/\<close>; the parameters follow a
  question mark. The other rewrites of the standard (case of scheme and host, default ports,
  percent-encoding) are not in this sample. The theorems about all worlds do not depend on
  it; the sample worlds below use it.
\<close>

fun split_slash :: "string \<Rightarrow> string list" where
  "split_slash [] = [[]]"
| "split_slash (c # cs) =
     (if c = CHR ''/'' then [] # split_slash cs
      else (case split_slash cs of [] \<Rightarrow> [[c]] | s # ss \<Rightarrow> (c # s) # ss))"

fun join_slash :: "string list \<Rightarrow> string" where
  "join_slash [] = []"
| "join_slash [s] = s"
| "join_slash (s # t # ss) = s @ ''/'' @ join_slash (t # ss)"

fun resolve_dots :: "string list \<Rightarrow> string list \<Rightarrow> string list" where
  "resolve_dots seen [] = rev seen"
| "resolve_dots seen (s # ss) =
     (if s = ''.'' then (if ss = [] then rev ([] # seen) else resolve_dots seen ss)
      else if s = ''..'' then (if ss = [] then rev ([] # tl seen) else resolve_dots (tl seen) ss)
      else resolve_dots (s # seen) ss)"

fun query_text :: "(string \<times> string) list \<Rightarrow> string" where
  "query_text [] = []"
| "query_text [(k, v)] = k @ ''='' @ v"
| "query_text ((k, v) # p # ps) = k @ ''='' @ v @ ''&'' @ query_text (p # ps)"

definition sample_url_text :: "URL \<Rightarrow> string" where
  "sample_url_text u =
     (let segments = split_slash (href u);
          segments_of_path = (if drop 3 segments = [] then [[]]
                              else resolve_dots [] (drop 3 segments))
      in join_slash (take 3 segments @ segments_of_path)
         @ (if searchParams u = [] then [] else ''?'' @ query_text (searchParams u)))"

text \<open>A world in which every call is answered after 5 ms by the same response.\<close>

definition steady_world :: "Response \<Rightarrow> World" where
  "steady_world r = \<lparr>url_error = (\<lambda>a. None), url_to_string = sample_url_text,
                      caller_abort_at = None, exchanges = (\<lambda>n. answer 5 r)\<rparr>"

text \<open>A response that says it is JSON and whose body is not.\<close>

definition broken_json_response :: "nat \<Rightarrow> Response" where
  "broken_json_response st =
     \<lparr>Response.status = st, content_type = Some ''application/json'',
      body_json = Inl (Error ''SyntaxError'' ''Unexpected token < in JSON at position 0''),
      body_text = Inl (Error ''TypeError'' ''Body is unusable'')\<rparr>"

text \<open>A world for a job: the first call answers the submission, every later one the poll.\<close>

definition job_world :: "JsonObject \<Rightarrow> World" where
  "job_world st = \<lparr>url_error = (\<lambda>a. None), url_to_string = sample_url_text,
      caller_abort_at = None,
      exchanges = (\<lambda>n. if n = 0 then answer 5 (json_response 200 (empty_object\<lparr>generation_id := Some ''job-1''\<rparr>))
                         else answer 5 (json_response 200 st))\<rparr>"

definition sample_audixa :: Audixa where
  "sample_audixa = \<lparr>client = sample_client\<rparr>"

section \<open>Facts about the platform model\<close>

lemma length_addEventListener [simp]: "length (addEventListener h s t) = length h"
  by (simp add: addEventListener_def)

lemma is_aborted_addEventListener [simp]:
  "is_aborted (addEventListener h s t) a = is_aborted h a"
  by (cases "a = s") (auto simp: addEventListener_def is_aborted_def)

lemma is_aborted_fresh [simp]:
  "\<not> is_aborted (h @ [\<lparr>aborted = False, listeners = ls\<rparr>]) (length h)"
  by (simp add: is_aborted_def)

lemma is_aborted_append [simp]:
  "a < length h \<Longrightarrow> is_aborted (h @ xs) a = is_aborted h a"
  by (simp add: is_aborted_def nth_append)

lemma combineSignals_fresh:
  "\<not> is_aborted (snd (combineSignals h s t)) (fst (combineSignals h s t))"
  by (simp add: combineSignals_def AbortController_new_def Let_def)

lemma fetched_await_fetch:
  "fetched (snd (await_fetch w rt timer_at controller us fs ex)) = fetched rt"
  by (simp add: await_fetch_def Let_def split_def split: option.splits)

lemma await_fetch_quiet:
  assumes "\<not> is_aborted (signals rt) fs"
    and "caller_event w us (now rt) (now rt + settle_after ex) = []"
    and "now rt + settle_after ex \<le> timer_at"
  shows "await_fetch w rt timer_at controller us fs ex =
           (settle_with ex, rt\<lparr>now := now rt + settle_after ex\<rparr>)"
  using assms by (simp add: await_fetch_def Let_def timer_event_def)

lemma length_abort_all [simp]: "length (abort_all as h) = length h"
  by (induction as h rule: abort_all.induct) auto

lemma abort_all_mono: "is_aborted h x \<Longrightarrow> is_aborted (abort_all as h) x"
proof (induction as h rule: abort_all.induct)
  case (1 h)
  then show ?case by simp
next
  case (2 a as h)
  show ?case
  proof (cases "a < length h \<and> \<not> aborted (h ! a)")
    case True
    have "is_aborted (h[a := (h ! a)\<lparr>aborted := True\<rparr>]) x"
      using "2.prems" by (cases "x = a") (auto simp: is_aborted_def)
    with True "2.IH"(1) show ?thesis by simp
  next
    case False
    with "2.IH"(2) "2.prems" show ?thesis by auto
  qed
qed

lemma abort_all_worklist:
  "x \<in> set as \<Longrightarrow> x < length h \<Longrightarrow> is_aborted (abort_all as h) x"
proof (induction as h rule: abort_all.induct)
  case (1 h)
  then show ?case by simp
next
  case (2 a as h)
  show ?case
  proof (cases "a < length h \<and> \<not> aborted (h ! a)")
    case True
    let ?h = "h[a := (h ! a)\<lparr>aborted := True\<rparr>]"
    show ?thesis
    proof (cases "x = a")
      case xa: True
      have "is_aborted ?h x" using True xa by (simp add: is_aborted_def)
      then show ?thesis using True abort_all_mono by simp
    next
      case False
      with "2.prems" have "x \<in> set (listeners (h ! a) @ as)" by simp
      with True "2.IH"(1) "2.prems" show ?thesis by simp
    qed
  next
    case False
    show ?thesis
    proof (cases "x = a")
      case True
      with False "2.prems" have "is_aborted h x" by (simp add: is_aborted_def)
      then show ?thesis using False abort_all_mono by auto
    next
      case xa: False
      with "2.prems" have "x \<in> set as" by simp
      with False "2.IH"(2) "2.prems" show ?thesis by auto
    qed
  qed
qed

lemma abort_listener:
  assumes "a < length h" "\<not> aborted (h ! a)" "t \<in> set (listeners (h ! a))" "t < length h"
  shows "is_aborted (abort h a) t"
  using assms abort_all_worklist [of t "listeners (h ! a) @ []" "h[a := (h ! a)\<lparr>aborted := True\<rparr>]"]
  by (simp add: abort_def)

lemma abort_self: "a < length h \<Longrightarrow> is_aborted (abort h a) a"
  using abort_all_worklist [of a "[a]" h] by (simp add: abort_def)

text \<open>
  Combining two signals that are not aborted yet: the combined signal aborts as soon as
  either of them does.
\<close>

lemma listeners_addEventListener:
  "a < length h \<Longrightarrow>
   listeners (addEventListener h s t ! a) =
     (if a = s then listeners (h ! a) @ [t] else listeners (h ! a))"
  by (simp add: addEventListener_def)

lemma combineSignals_aborts_on_either:
  assumes "u < length h" "t < length h"
    and "\<not> is_aborted h u" "\<not> is_aborted h t"
  shows "is_aborted (abort (snd (combineSignals h u t)) u) (fst (combineSignals h u t))"
    and "is_aborted (abort (snd (combineSignals h u t)) t) (fst (combineSignals h u t))"
proof -
  let ?c = "length h"
  let ?H = "addEventListener (addEventListener (h @ [\<lparr>aborted = False, listeners = []\<rparr>]) u ?c) t ?c"
  have eq: "snd (combineSignals h u t) = ?H" "fst (combineSignals h u t) = ?c"
    by (simp_all add: combineSignals_def AbortController_new_def Let_def)
  have len: "u < length ?H" "t < length ?H" "?c < length ?H" using assms(1,2) by simp_all
  have "\<not> is_aborted ?H u" "\<not> is_aborted ?H t"
    using assms by simp_all
  with len have live: "\<not> aborted (?H ! u)" "\<not> aborted (?H ! t)"
    unfolding is_aborted_def by blast+
  have lu: "?c \<in> set (listeners (?H ! u))"
    using assms(1,2) by (simp add: listeners_addEventListener nth_append)
  have lt: "?c \<in> set (listeners (?H ! t))"
    using assms(1,2) by (simp add: listeners_addEventListener nth_append)
  show "is_aborted (abort (snd (combineSignals h u t)) u) (fst (combineSignals h u t))"
    unfolding eq by (rule abort_listener [OF len(1) live(1) lu len(3)])
  show "is_aborted (abort (snd (combineSignals h u t)) t) (fst (combineSignals h u t))"
    unfolding eq by (rule abort_listener [OF len(2) live(2) lt len(3)])
qed

text \<open>The store after the set-up of a request that was given a signal of the caller.\<close>

lemma combine_store:
  assumes "s < length h"
  shows "snd (combineSignals (h @ [\<lparr>aborted = False, listeners = []\<rparr>]) s (length h)) =
           h[s := (h ! s)\<lparr>listeners := listeners (h ! s) @ [Suc (length h)]\<rparr>]
             @ [\<lparr>aborted = False, listeners = [Suc (length h)]\<rparr>, \<lparr>aborted = False, listeners = []\<rparr>]"
    and "fst (combineSignals (h @ [\<lparr>aborted = False, listeners = []\<rparr>]) s (length h)) = Suc (length h)"
  using assms
  by (simp_all add: combineSignals_def AbortController_new_def addEventListener_def Let_def
        nth_append list_update_append)


section \<open>Facts about the strings\<close>

lemma takeWhile_replicate:
  "takeWhile (\<lambda>c. c = x) xs = replicate (length (takeWhile (\<lambda>c. c = x) xs)) x"
  by (induction xs) auto

lemma strip_trailing_char:
  "\<exists>k. b = strip_trailing_slashes b @ replicate k CHR ''/''"
proof -
  let ?t = "takeWhile (\<lambda>c. c = CHR ''/'') (rev b)"
  let ?d = "dropWhile (\<lambda>c. c = CHR ''/'') (rev b)"
  have "rev (rev b) = rev (?t @ ?d)" by simp
  also have "\<dots> = rev ?d @ rev ?t" by (rule rev_append)
  also have "rev ?t = replicate (length ?t) CHR ''/''"
    by (subst takeWhile_replicate) (simp only: rev_replicate length_replicate)
  finally have "b = strip_trailing_slashes b @ replicate (length ?t) CHR ''/''"
    by (simp add: strip_trailing_slashes_def)
  then show ?thesis ..
qed

lemma strip_trailing_last:
  "strip_trailing_slashes b = [] \<or> last (strip_trailing_slashes b) \<noteq> CHR ''/''"
proof (cases "dropWhile (\<lambda>c. c = CHR ''/'') (rev b)")
  case Nil
  then show ?thesis by (simp add: strip_trailing_slashes_def)
next
  case (Cons x xs)
  then have "x \<noteq> CHR ''/''" using hd_dropWhile[of "\<lambda>c. c = CHR ''/''" "rev b"] by simp
  with Cons show ?thesis by (simp add: strip_trailing_slashes_def)
qed

lemma strip_leading_char:
  "\<exists>j. p = replicate j CHR ''/'' @ strip_leading_slashes p"
proof -
  let ?t = "takeWhile (\<lambda>c. c = CHR ''/'') p"
  have "p = ?t @ strip_leading_slashes p" by (simp add: strip_leading_slashes_def)
  then have "p = replicate (length ?t) CHR ''/'' @ strip_leading_slashes p"
    using takeWhile_replicate[of "CHR ''/''" p] by simp
  then show ?thesis ..
qed

lemma strip_leading_hd:
  "strip_leading_slashes p = [] \<or> hd (strip_leading_slashes p) \<noteq> CHR ''/''"
  using hd_dropWhile[of "\<lambda>c. c = CHR ''/''" p] by (auto simp: strip_leading_slashes_def)

section \<open>Facts about a request\<close>

lemma fetched_request:
  "url_error w (strip_trailing_slashes (HttpClient.baseUrl c) @ ''/'' @
      strip_leading_slashes (path config)) = None \<Longrightarrow>
   \<exists>call. fetched (snd (request c config w rt)) = fetched rt @ [call]
     \<and> href (fetch_url call) =
         strip_trailing_slashes (HttpClient.baseUrl c) @ ''/'' @ strip_leading_slashes (path config)
     \<and> searchParams (fetch_url call) = (case params config of None \<Rightarrow> [] | Some ps \<Rightarrow> ps)
     \<and> fetch_method call = http_method config
     \<and> fetch_input call = url_to_string w (fetch_url call)"
  by (simp add: request_def Let_def split_def fetched_await_fetch)

lemma request_completed:
  assumes url: "url_error w (strip_trailing_slashes (HttpClient.baseUrl c) @ ''/'' @
                  strip_leading_slashes (path config)) = None"
    and resp: "settle_with (exchanges w (length (fetched rt))) = Inr resp"
    and timer: "settle_after (exchanges w (length (fetched rt))) \<le> HttpClient.timeout c"
    and quiet: "caller_event w (RequestConfig.signal config) (now rt)
                  (now rt + settle_after (exchanges w (length (fetched rt)))) = []"
    and data: "read_body resp = Inr d"
  shows "fst (request c config w rt) =
           (if \<not> ok resp then Inl (AudixaErr (fromResponse (Response.status resp) (Some d)))
            else Inr d)"
proof (cases "RequestConfig.signal config")
  case None
  show ?thesis
    using url resp timer quiet data None
    by (simp add: request_def Let_def split_def AbortController_new_def await_fetch_quiet
                  catch_block_def)
next
  case (Some s)
  show ?thesis
    using url resp timer quiet data Some combineSignals_fresh
    by (simp add: request_def Let_def split_def AbortController_new_def await_fetch_quiet
                  catch_block_def)
qed

text \<open>
  When the body of the answer cannot be read (a body announced as JSON that is not JSON,
  say), the exchange has not completed: the reader throws inside the \<^verbatim>\<open>try\<close> block, and the
  request throws a \<open>NETWORK_ERROR\<close>, whatever the status was.
\<close>

lemma request_body_unreadable:
  assumes url: "url_error w (strip_trailing_slashes (HttpClient.baseUrl c) @ ''/'' @
                  strip_leading_slashes (path config)) = None"
    and resp: "settle_with (exchanges w (length (fetched rt))) = Inr resp"
    and timer: "settle_after (exchanges w (length (fetched rt))) \<le> HttpClient.timeout c"
    and quiet: "caller_event w (RequestConfig.signal config) (now rt)
                  (now rt + settle_after (exchanges w (length (fetched rt)))) = []"
    and unreadable: "read_body resp = Inl (Error name msg)" "name \<noteq> ''AbortError''"
  shows "fst (request c config w rt) = Inl (AudixaErr (networkError msg))"
proof (cases "RequestConfig.signal config")
  case None
  show ?thesis
    using url resp timer quiet unreadable None
    by (simp add: request_def Let_def split_def AbortController_new_def await_fetch_quiet
                  catch_block_def)
next
  case (Some s)
  show ?thesis
    using url resp timer quiet unreadable Some combineSignals_fresh
    by (simp add: request_def Let_def split_def AbortController_new_def await_fetch_quiet
                  catch_block_def)
qed

section \<open>Facts about an aborted request\<close>

lemma await_fetch_caller_abort:
  assumes "\<not> is_aborted (signals rt) fs"
    and "caller_abort_at w = Some ta" "now rt \<le> ta" "ta < now rt + settle_after ex"
    and "ta \<le> timer_at"
    and "is_aborted (abort (signals rt) s) fs"
  shows "await_fetch w rt timer_at controller (Some s) fs ex =
           (Inl abort_error, rt\<lparr>now := ta, signals := abort (signals rt) s\<rparr>)"
  using assms by (simp add: await_fetch_def Let_def caller_event_def timer_event_def)

lemma await_fetch_timer:
  assumes "\<not> is_aborted (signals rt) fs"
    and "timer_at < now rt + settle_after ex"
    and "case us of None \<Rightarrow> True
         | Some s \<Rightarrow> (case caller_abort_at w of None \<Rightarrow> True | Some ta \<Rightarrow> timer_at < ta)"
    and "is_aborted (abort (signals rt) controller) fs"
  shows "await_fetch w rt timer_at controller us fs ex =
           (Inl abort_error, rt\<lparr>now := timer_at, signals := abort (signals rt) controller\<rparr>)"
  using assms
  by (auto simp: await_fetch_def Let_def caller_event_def timer_event_def split: option.splits)

lemma abort_timer_store:
  "abort (h @ [\<lparr>aborted = False, listeners = [Suc (length h)]\<rparr>,
               \<lparr>aborted = False, listeners = []\<rparr>]) (length h) =
     h @ [\<lparr>aborted = True, listeners = [Suc (length h)]\<rparr>, \<lparr>aborted = True, listeners = []\<rparr>]"
  by (simp add: abort_def nth_append list_update_append)

lemma abort_timer_alone:
  "abort (h @ [\<lparr>aborted = False, listeners = []\<rparr>]) (length h) =
     h @ [\<lparr>aborted = True, listeners = []\<rparr>]"
  by (simp add: abort_def nth_append list_update_append)

lemma request_cancelled:
  assumes url: "url_error w (strip_trailing_slashes (HttpClient.baseUrl c) @ ''/'' @
                  strip_leading_slashes (path config)) = None"
    and sig: "RequestConfig.signal config = Some s" "s < length (signals rt)"
             "\<not> is_aborted (signals rt) s"
    and caller: "caller_abort_at w = Some ta" "now rt \<le> ta"
    and first: "ta < now rt + settle_after (exchanges w (length (fetched rt)))"
               "ta < now rt + HttpClient.timeout c"
  shows "fst (request c config w rt) =
           Inl (AudixaErr (AudixaError_new ''Request was cancelled'' UNKNOWN None None))"
proof -
  let ?h = "signals rt"
  let ?n = "length ?h"
  let ?H = "?h[s := (?h ! s)\<lparr>listeners := listeners (?h ! s) @ [Suc ?n]\<rparr>]
             @ [\<lparr>aborted = False, listeners = [Suc ?n]\<rparr>, \<lparr>aborted = False, listeners = []\<rparr>]"
  let ?call = "\<lparr>fetch_method = http_method config,
                fetch_url = \<lparr>href = strip_trailing_slashes (HttpClient.baseUrl c) @ ''/'' @
                                    strip_leading_slashes (path config),
                             searchParams = (case params config of None \<Rightarrow> [] | Some ps \<Rightarrow> ps)\<rparr>,
                fetch_input = url_to_string w
                    \<lparr>href = strip_trailing_slashes (HttpClient.baseUrl c) @ ''/'' @
                              strip_leading_slashes (path config),
                     searchParams = (case params config of None \<Rightarrow> [] | Some ps \<Rightarrow> ps)\<rparr>,
                fetch_api_key = apiKey c, fetch_body = body config, fetch_signal = Suc ?n\<rparr>"
  let ?rt = "rt\<lparr>signals := ?H, fetched := fetched rt @ [?call]\<rparr>"
  have fresh: "\<not> is_aborted (signals ?rt) (Suc ?n)"
    by (simp add: is_aborted_def nth_append)
  have s_in: "s < length ?H" using sig(2) by simp
  have s_live: "\<not> aborted (?H ! s)"
    using sig(2,3) by (simp add: is_aborted_def nth_append)
  have lis: "Suc ?n \<in> set (listeners (?H ! s))"
    using sig(2) by (simp add: nth_append)
  have fires: "is_aborted (abort (signals ?rt) s) (Suc ?n)"
    using abort_listener [OF s_in s_live lis] by simp
  have self: "is_aborted (abort ?H s) s"
    using abort_self [OF s_in] .
  have wait: "await_fetch w ?rt (now rt + HttpClient.timeout c) ?n (Some s) (Suc ?n)
                (exchanges w (length (fetched rt))) =
              (Inl abort_error, ?rt\<lparr>now := ta, signals := abort (signals ?rt) s\<rparr>)"
    using await_fetch_caller_abort [where rt = ?rt and fs = "Suc ?n" and w = w and ta = ta
            and ex = "exchanges w (length (fetched rt))" and s = s and controller = ?n
            and timer_at = "now rt + HttpClient.timeout c"] fresh caller first fires
    by simp
  show ?thesis
    using url sig(1) combine_store [OF sig(2)] wait self
    by (simp add: request_def Let_def split_def AbortController_new_def catch_block_def
                  abort_error_def)
qed


lemma request_timed_out:
  assumes url: "url_error w (strip_trailing_slashes (HttpClient.baseUrl c) @ ''/'' @
                  strip_leading_slashes (path config)) = None"
    and late: "HttpClient.timeout c < settle_after (exchanges w (length (fetched rt)))"
    and silent: "case RequestConfig.signal config of
                   None \<Rightarrow> True
                 | Some s \<Rightarrow> s < length (signals rt) \<and> \<not> is_aborted (signals rt) s
                      \<and> (case caller_abort_at w of
                            None \<Rightarrow> True
                          | Some ta \<Rightarrow> now rt + HttpClient.timeout c < ta)"
  shows "fst (request c config w rt) = Inl (AudixaErr timeout_error)"
proof (cases "RequestConfig.signal config")
  case None
  let ?h = "signals rt"
  let ?n = "length ?h"
  let ?call = "\<lparr>fetch_method = http_method config,
                fetch_url = \<lparr>href = strip_trailing_slashes (HttpClient.baseUrl c) @ ''/'' @
                                    strip_leading_slashes (path config),
                             searchParams = (case params config of None \<Rightarrow> [] | Some ps \<Rightarrow> ps)\<rparr>,
                fetch_input = url_to_string w
                    \<lparr>href = strip_trailing_slashes (HttpClient.baseUrl c) @ ''/'' @
                              strip_leading_slashes (path config),
                     searchParams = (case params config of None \<Rightarrow> [] | Some ps \<Rightarrow> ps)\<rparr>,
                fetch_api_key = apiKey c, fetch_body = body config, fetch_signal = ?n\<rparr>"
  let ?rt = "rt\<lparr>signals := ?h @ [\<lparr>aborted = False, listeners = []\<rparr>],
                 fetched := fetched rt @ [?call]\<rparr>"
  have wait: "await_fetch w ?rt (now rt + HttpClient.timeout c) ?n None ?n
                (exchanges w (length (fetched rt))) =
              (Inl abort_error,
               ?rt\<lparr>now := now rt + HttpClient.timeout c, signals := abort (signals ?rt) ?n\<rparr>)"
    using await_fetch_timer [where rt = ?rt and fs = ?n and controller = ?n and us = None
            and timer_at = "now rt + HttpClient.timeout c" and w = w
            and ex = "exchanges w (length (fetched rt))"] late
    by (simp add: abort_timer_alone is_aborted_def)
  show ?thesis
    using url None wait
    by (simp add: request_def Let_def split_def AbortController_new_def catch_block_def
                  abort_error_def)
next
  case (Some s)
  let ?h = "signals rt"
  let ?n = "length ?h"
  let ?h' = "?h[s := (?h ! s)\<lparr>listeners := listeners (?h ! s) @ [Suc ?n]\<rparr>]"
  let ?H = "?h' @ [\<lparr>aborted = False, listeners = [Suc ?n]\<rparr>, \<lparr>aborted = False, listeners = []\<rparr>]"
  let ?call = "\<lparr>fetch_method = http_method config,
                fetch_url = \<lparr>href = strip_trailing_slashes (HttpClient.baseUrl c) @ ''/'' @
                                    strip_leading_slashes (path config),
                             searchParams = (case params config of None \<Rightarrow> [] | Some ps \<Rightarrow> ps)\<rparr>,
                fetch_input = url_to_string w
                    \<lparr>href = strip_trailing_slashes (HttpClient.baseUrl c) @ ''/'' @
                              strip_leading_slashes (path config),
                     searchParams = (case params config of None \<Rightarrow> [] | Some ps \<Rightarrow> ps)\<rparr>,
                fetch_api_key = apiKey c, fetch_body = body config, fetch_signal = Suc ?n\<rparr>"
  let ?rt = "rt\<lparr>signals := ?H, fetched := fetched rt @ [?call]\<rparr>"
  from silent Some have s: "s < ?n" "\<not> is_aborted ?h s"
    and later: "case caller_abort_at w of None \<Rightarrow> True
                | Some ta \<Rightarrow> now rt + HttpClient.timeout c < ta"
    by simp_all
  have store: "abort ?H ?n =
      ?h' @ [\<lparr>aborted = True, listeners = [Suc ?n]\<rparr>, \<lparr>aborted = True, listeners = []\<rparr>]"
    using abort_timer_store [of ?h'] by simp
  have fresh: "\<not> is_aborted (signals ?rt) (Suc ?n)"
    by (simp add: is_aborted_def nth_append)
  have fires: "is_aborted (abort (signals ?rt) ?n) (Suc ?n)"
    by (simp add: store is_aborted_def nth_append)
  have still: "\<not> is_aborted (abort ?H ?n) s"
    using s by (simp add: store is_aborted_def nth_append)
  have wait: "await_fetch w ?rt (now rt + HttpClient.timeout c) ?n (Some s) (Suc ?n)
                (exchanges w (length (fetched rt))) =
              (Inl abort_error,
               ?rt\<lparr>now := now rt + HttpClient.timeout c, signals := abort (signals ?rt) ?n\<rparr>)"
    using await_fetch_timer [where rt = ?rt and fs = "Suc ?n" and controller = ?n
            and us = "Some s" and timer_at = "now rt + HttpClient.timeout c" and w = w
            and ex = "exchanges w (length (fetched rt))"] late later fresh fires
    by simp
  show ?thesis
    using url Some combine_store [OF s(1)] wait still
    by (simp add: request_def Let_def split_def AbortController_new_def catch_block_def
                  abort_error_def)
qed

section \<open>Facts about what is thrown\<close>

lemma fromResponse_code: "code (fromResponse st r) \<noteq> UNAUTHORIZED"
  by (simp add: fromResponse_def getErrorCodeFromStatus_def AudixaError_new_def Let_def)

lemma catch_block_kind:
  "kind err \<noteq> Some UNAUTHORIZED \<Longrightarrow>
   \<exists>e. catch_block h sig err = AudixaErr e \<and> code e \<noteq> UNAUTHORIZED"
  by (auto simp: catch_block_def AudixaError_new_def timeout_error_def networkError_def
           split: thrown.splits js_exception.splits)

lemma request_throws:
  assumes "fst (request c config w rt) = Inl x"
  shows "kind x \<noteq> Some UNAUTHORIZED"
    and "url_error w (strip_trailing_slashes (HttpClient.baseUrl c) @ ''/'' @
           strip_leading_slashes (path config)) = None \<Longrightarrow> \<exists>e. x = AudixaErr e"
proof -
  let ?address = "strip_trailing_slashes (HttpClient.baseUrl c) @ ''/'' @
                    strip_leading_slashes (path config)"
  have "kind x \<noteq> Some UNAUTHORIZED \<and> (url_error w ?address = None \<longrightarrow> (\<exists>e. x = AudixaErr e))"
  proof (cases "url_error w ?address")
    case (Some y)
    with assms show ?thesis by (auto simp: request_def Let_def)
  next
    case None
    from assms None obtain h s err where "x = catch_block h s err" "kind err \<noteq> Some UNAUTHORIZED"
      by (auto simp: request_def Let_def split_def fromResponse_code
               split: sum.splits if_splits)
    with catch_block_kind [of err h s] show ?thesis by auto
  qed
  then show "kind x \<noteq> Some UNAUTHORIZED"
    and "url_error w ?address = None \<Longrightarrow> \<exists>e. x = AudixaErr e" by auto
qed

lemma poll_throws:
  "poll fuel a gid start interval maxWait sig w rt = Some (Inl x, rt') \<Longrightarrow>
   kind x \<noteq> Some UNAUTHORIZED"
proof (induction fuel arbitrary: rt)
  case 0
  then show ?case by simp
next
  case (Suc fuel)
  show ?case
  proof (cases "getStatus a gid (Some \<lparr>RequestOptions.signal = sig\<rparr>) w rt")
    case (Pair res rt1)
    have thrown: "kind y \<noteq> Some UNAUTHORIZED" if "res = Inl y" for y
    proof (rule request_throws(1))
      show "fst (request (client a)
                   \<lparr>http_method = GET, path = ''/status'', body = None,
                    params = Some [(''generation_id'', gid)],
                    RequestConfig.signal = sig\<rparr> w rt) = Inl y"
        using Pair that by (simp add: getStatus_def)
    qed
    from Suc.prems Pair thrown Suc.IH show ?thesis
      by (auto split: if_splits sum.splits)
  qed
qed

lemma generateTTS_throws:
  assumes "generateTTS fuel a payload options w rt = Some (Inl x, rt')"
  shows "kind x \<noteq> Some UNAUTHORIZED"
proof (cases "startTTS a payload
                (Some \<lparr>RequestOptions.signal = Option.bind options RequestOptions.signal\<rparr>) w rt")
  case (Pair res rt1)
  have thrown: "kind y \<noteq> Some UNAUTHORIZED" if "res = Inl y" for y
  proof (rule request_throws(1))
    show "fst (request (client a)
                 \<lparr>http_method = POST, path = ''/tts'', body = Some payload, params = None,
                  RequestConfig.signal = Option.bind options RequestOptions.signal\<rparr> w rt)
          = Inl y"
      using Pair that by (simp add: startTTS_def)
  qed
  from assms Pair thrown poll_throws show ?thesis
    by (auto simp: generateTTS_def Let_def split: sum.splits)
qed

section \<open>Facts about polling\<close>

lemma is_aborted_append_fresh:
  "list_all (\<lambda>s. \<not> aborted s) xs \<Longrightarrow> is_aborted (h @ xs) x = is_aborted h x"
  by (auto simp: is_aborted_def nth_append list_all_length)

lemma request_quiet_state:
  assumes url: "url_error w (strip_trailing_slashes (HttpClient.baseUrl c) @ ''/'' @
                  strip_leading_slashes (path config)) = None"
    and timer: "settle_after (exchanges w (length (fetched rt))) \<le> HttpClient.timeout c"
    and quiet: "caller_event w (RequestConfig.signal config) (now rt)
                  (now rt + settle_after (exchanges w (length (fetched rt)))) = []"
  shows "now (snd (request c config w rt)) =
           now rt + settle_after (exchanges w (length (fetched rt)))"
    and "is_aborted (signals (snd (request c config w rt))) x = is_aborted (signals rt) x"
proof -
  have "now (snd (request c config w rt)) =
           now rt + settle_after (exchanges w (length (fetched rt)))
        \<and> is_aborted (signals (snd (request c config w rt))) x = is_aborted (signals rt) x"
  proof (cases "RequestConfig.signal config")
    case None
    show ?thesis
      using url timer quiet None
      by (simp add: request_def Let_def split_def AbortController_new_def await_fetch_quiet)
         (simp add: is_aborted_append_fresh)
  next
    case (Some s)
    show ?thesis
      using url timer quiet Some combineSignals_fresh
      by (simp add: request_def Let_def split_def AbortController_new_def await_fetch_quiet)
         (simp add: combineSignals_def AbortController_new_def is_aborted_append_fresh)
  qed
  then show "now (snd (request c config w rt)) =
           now rt + settle_after (exchanges w (length (fetched rt)))"
    and "is_aborted (signals (snd (request c config w rt))) x = is_aborted (signals rt) x"
    by simp_all
qed


lemma sleep_calm:
  "caller_abort_at w = None \<Longrightarrow> sleep w sig ms rt = rt\<lparr>now := now rt + ms\<rparr>"
  by (cases sig) (simp_all add: sleep_def caller_event_def)

lemma getStatus_answered:
  assumes accepted: "\<forall>address. url_error w address = None"
    and calm: "caller_abort_at w = None"
    and resp: "settle_with (exchanges w (length (fetched rt))) = Inr r"
    and okr: "ok r"
    and data: "read_body r = Inr d"
    and timer: "settle_after (exchanges w (length (fetched rt))) < HttpClient.timeout (client a)"
  shows "\<exists>rt1 call. getStatus a gid opts w rt = (Inr d, rt1)
           \<and> now rt1 = now rt + settle_after (exchanges w (length (fetched rt)))
           \<and> fetched rt1 = fetched rt @ [call]
           \<and> fetch_method call = GET
           \<and> href (fetch_url call) =
                strip_trailing_slashes (HttpClient.baseUrl (client a)) @ ''/status''
           \<and> (\<forall>x. is_aborted (signals rt1) x = is_aborted (signals rt) x)"
proof -
  let ?config = "\<lparr>http_method = GET, path = ''/status'', body = None,
                   params = Some [(''generation_id'', gid)],
                   RequestConfig.signal = Option.bind opts RequestOptions.signal\<rparr>"
  let ?run = "request (client a) ?config w rt"
  have url: "url_error w (strip_trailing_slashes (HttpClient.baseUrl (client a)) @ ''/'' @
               strip_leading_slashes (path ?config)) = None"
    using accepted by simp
  have quiet: "caller_event w (RequestConfig.signal ?config) (now rt)
                 (now rt + settle_after (exchanges w (length (fetched rt)))) = []"
    using calm by (simp add: caller_event_def split: option.splits)
  have le: "settle_after (exchanges w (length (fetched rt))) \<le> HttpClient.timeout (client a)"
    using timer by simp
  have 1: "fst ?run = Inr d"
    using request_completed [OF url resp le quiet data] okr by simp
  have 2: "now (snd ?run) = now rt + settle_after (exchanges w (length (fetched rt)))"
    and 3: "\<And>x. is_aborted (signals (snd ?run)) x = is_aborted (signals rt) x"
    using request_quiet_state [OF url le quiet] by simp_all
  from fetched_request [OF url, of rt] obtain call where
    4: "fetched (snd ?run) = fetched rt @ [call]" "fetch_method call = GET"
       "href (fetch_url call) =
          strip_trailing_slashes (HttpClient.baseUrl (client a)) @ ''/status''"
    by (auto simp: strip_leading_slashes_def)
  have "getStatus a gid opts w rt = (fst ?run, snd ?run)"
    by (simp add: getStatus_def)
  with 1 2 3 4 show ?thesis by auto
qed

lemma poll_pending:
  assumes accepted: "\<forall>address. url_error w address = None"
    and calm: "caller_abort_at w = None"
    and pending: "\<And>n. k < n \<Longrightarrow>
        \<exists>r d. settle_with (exchanges w n) = Inr r \<and> ok r \<and> read_body r = Inr d
          \<and> settle_after (exchanges w n) < HttpClient.timeout (client a)
          \<and> get_prop JsonObject.status (Some d) \<noteq> Some ''Failed''
          \<and> \<not> (get_prop JsonObject.status (Some d) = Some ''Completed''
                \<and> truthy (get_prop JsonObject.url (Some d)))
          \<and> 0 < I + settle_after (exchanges w n)"
  shows "k < length (fetched rt) \<Longrightarrow> start \<le> now rt \<Longrightarrow>
     (case sig of None \<Rightarrow> True | Some s \<Rightarrow> \<not> is_aborted (signals rt) s) \<Longrightarrow>
     \<exists>rt' more.
        (\<forall>fuel. start + M + 1 - now rt < fuel \<longrightarrow>
           poll fuel a gid start I M sig w rt =
             Some (Inl (Js (Error ''Error''
                     (''Generation timed out after '' @ string_of_nat M @ ''ms''))), rt'))
        \<and> M < now rt' - start
        \<and> fetched rt' = fetched rt @ more
        \<and> (M < now rt - start \<longrightarrow> rt' = rt)
        \<and> (now rt \<le> start + M \<longrightarrow>
             now rt' \<le> start + M + HttpClient.timeout (client a) + I
             \<and> more \<noteq> [] \<and> fetch_method (hd more) = GET
             \<and> href (fetch_url (hd more)) =
                  strip_trailing_slashes (HttpClient.baseUrl (client a)) @ ''/status'')"
proof (induction "start + M + 1 - now rt" arbitrary: rt rule: less_induct)
  case less
  let ?err = "Inl (Js (Error ''Error''
                (''Generation timed out after '' @ string_of_nat M @ ''ms'')))"
  show ?case
  proof (cases "M < now rt - start")
    case True
    have "poll fuel a gid start I M sig w rt = Some (?err, rt)" if "0 < fuel" for fuel
    proof -
      from that obtain f where "fuel = Suc f" by (cases fuel) auto
      with True show ?thesis by simp
    qed
    with True show ?thesis
      by (intro exI [of _ rt] exI [of _ "[]"]) auto
  next
    case False
    with less.prems(2) have inside: "now rt \<le> start + M" by simp
    have live: "\<not> (case sig of None \<Rightarrow> False | Some s \<Rightarrow> is_aborted (signals rt) s)"
      using less.prems(3) by (simp split: option.splits)
    from pending [OF less.prems(1)] obtain r d where
      got: "settle_with (exchanges w (length (fetched rt))) = Inr r" "ok r" "read_body r = Inr d"
          "settle_after (exchanges w (length (fetched rt))) < HttpClient.timeout (client a)"
      and going: "get_prop JsonObject.status (Some d) \<noteq> Some ''Failed''"
          "\<not> (get_prop JsonObject.status (Some d) = Some ''Completed''
              \<and> truthy (get_prop JsonObject.url (Some d)))"
      and tick: "0 < I + settle_after (exchanges w (length (fetched rt)))"
      by (elim exE conjE) (rule that)
    from getStatus_answered [OF accepted calm got(1,2,3,4), of gid
           "Some \<lparr>RequestOptions.signal = sig\<rparr>"]
    obtain rt1 call where
      st: "getStatus a gid (Some \<lparr>RequestOptions.signal = sig\<rparr>) w rt = (Inr d, rt1)"
      and t1: "now rt1 = now rt + settle_after (exchanges w (length (fetched rt)))"
      and f1: "fetched rt1 = fetched rt @ [call]" "fetch_method call = GET"
          "href (fetch_url call) =
             strip_trailing_slashes (HttpClient.baseUrl (client a)) @ ''/status''"
      and s1: "\<forall>x. is_aborted (signals rt1) x = is_aborted (signals rt) x"
      by blast
    let ?rt2 = "sleep w sig I rt1"
    have rt2: "?rt2 = rt1\<lparr>now := now rt1 + I\<rparr>" using calm by (rule sleep_calm)
    have t2: "now ?rt2 = now rt + settle_after (exchanges w (length (fetched rt))) + I"
      using rt2 t1 by simp
    have step: "poll (Suc f) a gid start I M sig w rt = poll f a gid start I M sig w ?rt2"
      for f
      using False live st going by auto
    have smaller: "start + M + 1 - now ?rt2 < start + M + 1 - now rt"
      using tick inside unfolding t2 by arith
    have p1: "k < length (fetched ?rt2)" using rt2 f1(1) less.prems(1) by simp
    have p2: "start \<le> now ?rt2" using t2 less.prems(2) by simp
    have p3: "case sig of None \<Rightarrow> True | Some s \<Rightarrow> \<not> is_aborted (signals ?rt2) s"
      using less.prems(3) s1 rt2 by (simp split: option.splits)
    from less.hyps [OF smaller p1 p2 p3] obtain rt' more where
      run: "\<forall>fuel. start + M + 1 - now ?rt2 < fuel \<longrightarrow>
              poll fuel a gid start I M sig w ?rt2 = Some (?err, rt')"
      and late: "M < now rt' - start"
      and log: "fetched rt' = fetched ?rt2 @ more"
      and at_once: "M < now ?rt2 - start \<longrightarrow> rt' = ?rt2"
      and bound: "now ?rt2 \<le> start + M \<longrightarrow>
                    now rt' \<le> start + M + HttpClient.timeout (client a) + I"
      by blast
    have all: "poll fuel a gid start I M sig w rt = Some (?err, rt')"
      if "start + M + 1 - now rt < fuel" for fuel
    proof -
      from that obtain f where f: "fuel = Suc f" by (cases fuel) auto
      with that smaller have "start + M + 1 - now ?rt2 < f" by simp
      with run step f show ?thesis by simp
    qed
    have time: "now rt' \<le> start + M + HttpClient.timeout (client a) + I"
    proof (cases "now ?rt2 \<le> start + M")
      case True
      with bound show ?thesis by simp
    next
      case False
      with p2 at_once have "rt' = ?rt2" by simp
      with t2 got(4) inside show ?thesis by simp
    qed
    have log': "fetched rt' = fetched rt @ (call # more)"
      using log rt2 f1(1) by simp
    show ?thesis
      using all late log' time f1(2,3) False
      by (intro exI [of _ rt'] exI [of _ "call # more"]) auto
  qed
qed

lemma startTTS_answered:
  assumes accepted: "\<forall>address. url_error w address = None"
    and calm: "caller_abort_at w = None"
    and resp: "settle_with (exchanges w (length (fetched rt))) = Inr r"
    and okr: "ok r"
    and data: "read_body r = Inr d"
    and timer: "settle_after (exchanges w (length (fetched rt))) < HttpClient.timeout (client a)"
  shows "\<exists>rt1 call. startTTS a payload opts w rt = (Inr d, rt1)
           \<and> now rt1 = now rt + settle_after (exchanges w (length (fetched rt)))
           \<and> fetched rt1 = fetched rt @ [call]
           \<and> (\<forall>x. is_aborted (signals rt1) x = is_aborted (signals rt) x)"
proof -
  let ?config = "\<lparr>http_method = POST, path = ''/tts'', body = Some payload, params = None,
                   RequestConfig.signal = Option.bind opts RequestOptions.signal\<rparr>"
  let ?run = "request (client a) ?config w rt"
  have url: "url_error w (strip_trailing_slashes (HttpClient.baseUrl (client a)) @ ''/'' @
               strip_leading_slashes (path ?config)) = None"
    using accepted by simp
  have quiet: "caller_event w (RequestConfig.signal ?config) (now rt)
                 (now rt + settle_after (exchanges w (length (fetched rt)))) = []"
    using calm by (simp add: caller_event_def split: option.splits)
  have le: "settle_after (exchanges w (length (fetched rt))) \<le> HttpClient.timeout (client a)"
    using timer by simp
  have 1: "fst ?run = Inr d"
    using request_completed [OF url resp le quiet data] okr by simp
  have 2: "now (snd ?run) = now rt + settle_after (exchanges w (length (fetched rt)))"
    and 3: "\<And>x. is_aborted (signals (snd ?run)) x = is_aborted (signals rt) x"
    using request_quiet_state [OF url le quiet] by simp_all
  from fetched_request [OF url, of rt] obtain call where
    4: "fetched (snd ?run) = fetched rt @ [call]"
    by auto
  have "startTTS a payload opts w rt = (fst ?run, snd ?run)"
    by (simp add: startTTS_def)
  with 1 2 3 4 show ?thesis by auto
qed

lemma poll_returns:
  "poll fuel a gid start interval maxWait sig w rt = Some (Inr u, rt') \<Longrightarrow>
   u \<noteq> [] \<and> (\<exists>rt0 d. getStatus a gid (Some \<lparr>RequestOptions.signal = sig\<rparr>) w rt0 = (Inr d, rt')
              \<and> get_prop JsonObject.status (Some d) = Some ''Completed''
              \<and> get_prop JsonObject.url (Some d) = Some u)"
proof (induction fuel arbitrary: rt)
  case 0
  then show ?case by simp
next
  case (Suc fuel)
  show ?case
  proof (cases "getStatus a gid (Some \<lparr>RequestOptions.signal = sig\<rparr>) w rt")
    case (Pair res rt1)
    show ?thesis
    proof (cases res)
      case (Inl err)
      with Suc.prems Pair show ?thesis by (simp split: if_splits)
    next
      case (Inr d)
      show ?thesis
      proof (cases "get_prop JsonObject.status (Some d) = Some ''Completed''
                    \<and> truthy (get_prop JsonObject.url (Some d))")
        case True
        then obtain v where v: "get_prop JsonObject.url (Some d) = Some v" "v \<noteq> []"
          by (auto simp: truthy_def split: option.splits)
        with Suc.prems Pair Inr True have "u = v" "rt' = rt1"
          by (auto simp: js_or_string_def split: if_splits)
        with v True Pair Inr show ?thesis by blast
      next
        case False
        with Suc.prems Pair Inr
        have "poll fuel a gid start interval maxWait sig w (sleep w sig interval rt1)
                = Some (Inr u, rt')"
          by (auto split: if_splits)
        then show ?thesis by (rule Suc.IH)
      qed
    qed
  qed
qed

section \<open>Unfolding a run\<close>

lemmas run_defs =
  generateTTS_def startTTS_def getStatus_def getVoices_def request_def Let_def split_def
  AbortController_new_def combineSignals_def addEventListener_def await_fetch_def
  caller_event_def timer_event_def is_aborted_def abort_def read_body_def ok_def
  catch_block_def fromResponse_def getErrorCodeFromStatus_def AudixaError_new_def
  networkError_def timeout_error_def abort_error_def get_prop_def truthy_def js_or_def
  js_or_string_def js_or_number_def strip_trailing_slashes_def strip_leading_slashes_def
  sleep_def

lemmas sample_defs =
  job_world_def sample_audixa_def sample_client_def start_runtime_def steady_world_def
  json_response_def answer_def empty_object_def get_config_def broken_json_response_def

section \<open>Construction\<close>

text \<open>
  Claim C9. Constructing a client with the empty string, or with a value that is not a
  string, as API key throws an \<^verbatim>\<open>AudixaError\<close> of kind \<open>INVALID_PARAMS\<close>; constructing it
  with a string that is not empty gives a client that holds this key. The constructor is a
  function of the key and the options alone: it has no access to the network, so it throws
  before any call could be made.
\<close>

theorem C9_api_key:
  "(\<exists>e. Audixa_new (JsString []) options = Inl (AudixaErr e) \<and> code e = INVALID_PARAMS)
   \<and> (\<exists>e. Audixa_new (JsOther t) options = Inl (AudixaErr e) \<and> code e = INVALID_PARAMS)
   \<and> (k \<noteq> [] \<longrightarrow> (\<exists>a. Audixa_new (JsString k) options = Inr a \<and> apiKey (client a) = k))"
  by (simp add: Audixa_new_def HttpClient_new_def AudixaError_new_def)

theorem C9_api_key_witness:
  "''key'' \<noteq> [] \<and> (\<exists>a. Audixa_new (JsString ''key'') None = Inr a \<and> apiKey (client a) = ''key'')"
  using C9_api_key [of None True "''key''"] by simp

section \<open>Errors from responses\<close>

text \<open>
  Claim C4, as stated, fails where a field is present and empty: the body
  \<^verbatim>\<open>{"message": "", "error": "quota"}\<close> gives the message \<^verbatim>\<open>quota\<close>, not the empty
  \<^verbatim>\<open>message\<close> field.
\<close>

theorem C4_counterexample:
  "JsonObject.message (empty_object\<lparr>JsonObject.message := Some [], error := Some ''quota''\<rparr>) = Some []
   \<and> AudixaError.message (fromResponse 402
        (Some (JsonData (empty_object\<lparr>JsonObject.message := Some [], error := Some ''quota''\<rparr>))))
       = ''quota''"
  by (simp add: empty_object_def fromResponse_def get_prop_def js_or_def js_or_string_def
                truthy_def AudixaError_new_def)

text \<open>
  Claim C4, amended. The message of the error made from a response with parsed body \<open>b\<close> is
  \<open>b.message\<close> if that field is present and not empty, else \<open>b.error\<close> if that field is
  present and not empty, else the text \<^verbatim>\<open>Request failed with status\<close> followed by the
  status code in decimal; a body that is text gives the last.
\<close>

theorem C4_message:
  "(JsonObject.message b = Some m \<and> m \<noteq> [] \<longrightarrow>
      AudixaError.message (fromResponse st (Some (JsonData b))) = m)
   \<and> ((JsonObject.message b = None \<or> JsonObject.message b = Some [])
        \<and> error b = Some e \<and> e \<noteq> [] \<longrightarrow>
      AudixaError.message (fromResponse st (Some (JsonData b))) = e)
   \<and> ((JsonObject.message b = None \<or> JsonObject.message b = Some [])
        \<and> (error b = None \<or> error b = Some []) \<longrightarrow>
      AudixaError.message (fromResponse st (Some (JsonData b))) =
        ''Request failed with status '' @ string_of_nat st)
   \<and> AudixaError.message (fromResponse st (Some (TextData s))) =
        ''Request failed with status '' @ string_of_nat st"
  by (auto simp: fromResponse_def get_prop_def js_or_def js_or_string_def truthy_def
                 AudixaError_new_def)

theorem C4_message_witness:
  "AudixaError.message (fromResponse 404
      (Some (JsonData (empty_object\<lparr>JsonObject.message := Some ''no such job''\<rparr>)))) = ''no such job''
   \<and> AudixaError.message (fromResponse 404
      (Some (JsonData (empty_object\<lparr>JsonObject.message := Some [], error := Some ''gone''\<rparr>)))) = ''gone''
   \<and> AudixaError.message (fromResponse 404 (Some (JsonData empty_object))) =
        ''Request failed with status 404''"
  using C4_message [of "empty_object\<lparr>JsonObject.message := Some ''no such job''\<rparr>"
                       "''no such job''" 404 "''x''" "''''"]
    C4_message [of "empty_object\<lparr>JsonObject.message := Some [], error := Some ''gone''\<rparr>"
                   "''x''" 404 "''gone''" "''''"]
    C4_message [of empty_object "''x''" 404 "''x''" "''''"]
  by (simp add: empty_object_def string_of_nat.simps)

text \<open>
  Claim C2, as stated, fails where the body of the answer cannot be read: the reader throws
  inside the \<^verbatim>\<open>try\<close> block, before the status is looked at. A 404 that says it is JSON and is
  not gives an error of kind \<open>NETWORK_ERROR\<close>, where the table has \<open>NOT_FOUND\<close>.
\<close>

theorem C2_counterexample:
  "map_sum kind id
     (fst (request sample_client (get_config ''/status'' None)
             (steady_world (broken_json_response 404)) start_runtime))
     = Inl (Some NETWORK_ERROR)
   \<and> Response.status (broken_json_response 404) = 404
   \<and> \<not> ok (broken_json_response 404)
   \<and> getErrorCodeFromStatus 404 = NOT_FOUND"
  by (simp add: run_defs sample_defs)

text \<open>
  Claim C2, amended. Take an exchange that completes and whose body is read: the URL is
  accepted, the network answers with a response before the timer of the request fires, the
  caller does not abort its signal before the answer, and the body reader returns. If the
  status of the response is not from 200 to 299, the request throws the \<^verbatim>\<open>AudixaError\<close> made
  from the response, with that status and the kind of the table: 400 \<open>INVALID_PARAMS\<close>, 401
  \<open>INVALID_API_KEY\<close>, 402 \<open>INSUFFICIENT_CREDITS\<close>, 403 \<open>FORBIDDEN\<close>, 404 \<open>NOT_FOUND\<close>, any other
  \<open>UNKNOWN\<close>.
\<close>

theorem C2_status_to_kind:
  assumes accepted: "url_error w (strip_trailing_slashes (HttpClient.baseUrl c) @ ''/'' @
                       strip_leading_slashes (path config)) = None"
    and answered: "settle_with (exchanges w (length (fetched rt))) = Inr resp"
    and in_time: "settle_after (exchanges w (length (fetched rt))) < HttpClient.timeout c"
    and no_abort: "case (RequestConfig.signal config, caller_abort_at w) of
                     (Some s, Some ta) \<Rightarrow>
                        now rt + settle_after (exchanges w (length (fetched rt))) < ta
                   | _ \<Rightarrow> True"
    and body_read: "read_body resp = Inr d"
    and failed: "\<not> ok resp"
  shows "\<exists>e. fst (request c config w rt) = Inl (AudixaErr e)
           \<and> e = fromResponse (Response.status resp) (Some d)
           \<and> AudixaError.status e = Some (Response.status resp)
           \<and> code e = (if Response.status resp = 400 then INVALID_PARAMS
                        else if Response.status resp = 401 then INVALID_API_KEY
                        else if Response.status resp = 402 then INSUFFICIENT_CREDITS
                        else if Response.status resp = 403 then FORBIDDEN
                        else if Response.status resp = 404 then NOT_FOUND
                        else UNKNOWN)"
proof -
  have quiet: "caller_event w (RequestConfig.signal config) (now rt)
                 (now rt + settle_after (exchanges w (length (fetched rt)))) = []"
    using no_abort by (auto simp: caller_event_def split: option.splits)
  have "fst (request c config w rt) =
          Inl (AudixaErr (fromResponse (Response.status resp) (Some d)))"
    using request_completed [OF accepted answered _ quiet body_read] in_time failed by simp
  then show ?thesis
    by (simp add: fromResponse_def getErrorCodeFromStatus_def AudixaError_new_def Let_def)
qed

theorem C2_status_to_kind_witness:
  "\<exists>e. fst (request sample_client (get_config ''/status'' None)
             (steady_world (json_response 402 empty_object)) start_runtime) = Inl (AudixaErr e)
       \<and> code e = INSUFFICIENT_CREDITS"
proof -
  let ?r = "json_response 402 empty_object"
  have body: "read_body ?r = Inr (JsonData empty_object)"
    by (simp add: read_body_def json_response_def)
  have "\<not> ok ?r" by (simp add: ok_def json_response_def)
  from C2_status_to_kind [of "steady_world ?r" sample_client "get_config ''/status'' None"
          start_runtime ?r "JsonData empty_object", OF _ _ _ _ body this]
  show ?thesis
    by (simp add: steady_world_def sample_client_def get_config_def start_runtime_def
                  answer_def json_response_def)
qed

section \<open>The URL of a request\<close>

text \<open>
  Claim C5, as stated, fails where the platform rewrites the text: \<^verbatim>\<open>fetch\<close> is given
  \<^verbatim>\<open>url.toString()\<close>, not the text the URL was made from. With the base
  \<^verbatim>\<open>https://x/v2/\<close> and the path \<^verbatim>\<open>/a/../tts\<close> the joined text is
  \<^verbatim>\<open>https://x/v2/a/../tts\<close>, and what is fetched is \<^verbatim>\<open>https://x/v2/tts\<close>.
\<close>

theorem C5_counterexample:
  "map fetch_input (fetched (snd (request sample_client (get_config ''/a/../tts'' None)
         (steady_world (json_response 200 empty_object)) start_runtime)))
     = [''https://x/v2/tts'']
   \<and> strip_trailing_slashes (HttpClient.baseUrl sample_client) @ ''/'' @
         strip_leading_slashes ''/a/../tts'' = ''https://x/v2/a/../tts''"
  by (simp add: run_defs sample_defs sample_url_text_def)

text \<open>
  Claim C5, amended. When \<^verbatim>\<open>new URL\<close> accepts the text, a request calls \<^verbatim>\<open>fetch\<close> once. The
  text it makes the URL from is the base URL without its slashes at the end, one slash, and
  the path without its slashes at the start; what is taken off the base URL is a run of
  slashes and what is left does not end in a slash; what is taken off the path is a run of
  slashes and what is left does not start with one. The query parameters of the request are
  appended to that URL, and the URL dispatched is what the platform's \<^verbatim>\<open>toString\<close> makes of
  it. The witness runs the two examples of the claim: both fetch \<^verbatim>\<open>https://x/v2/tts\<close>.
\<close>

theorem C5_url_composition:
  assumes "url_error w (strip_trailing_slashes (HttpClient.baseUrl c) @ ''/'' @
             strip_leading_slashes (path config)) = None"
  shows "\<exists>call. fetched (snd (request c config w rt)) = fetched rt @ [call]
           \<and> fetch_input call = url_to_string w (fetch_url call)
           \<and> href (fetch_url call) =
               strip_trailing_slashes (HttpClient.baseUrl c) @ ''/'' @
               strip_leading_slashes (path config)
           \<and> searchParams (fetch_url call) = (case params config of None \<Rightarrow> [] | Some ps \<Rightarrow> ps)
           \<and> (\<exists>k. HttpClient.baseUrl c =
                    strip_trailing_slashes (HttpClient.baseUrl c) @ replicate k CHR ''/'')
           \<and> (strip_trailing_slashes (HttpClient.baseUrl c) = []
                \<or> last (strip_trailing_slashes (HttpClient.baseUrl c)) \<noteq> CHR ''/'')
           \<and> (\<exists>j. path config = replicate j CHR ''/'' @ strip_leading_slashes (path config))
           \<and> (strip_leading_slashes (path config) = []
                \<or> hd (strip_leading_slashes (path config)) \<noteq> CHR ''/'')"
  using fetched_request [OF assms, of rt] strip_trailing_char [of "HttpClient.baseUrl c"]
    strip_trailing_last [of "HttpClient.baseUrl c"] strip_leading_char [of "path config"]
    strip_leading_hd [of "path config"]
  by blast

theorem C5_url_composition_witness:
  "(\<exists>call. fetched (snd (request sample_client (get_config ''/tts'' None)
               (steady_world (json_response 200 empty_object)) start_runtime)) = [call]
       \<and> href (fetch_url call) = ''https://x/v2/tts''
       \<and> fetch_input call = ''https://x/v2/tts'')
   \<and> (\<exists>call. fetched (snd (request (sample_client\<lparr>HttpClient.baseUrl := ''https://x/v2''\<rparr>)
               (get_config ''tts'' None)
               (steady_world (json_response 200 empty_object)) start_runtime)) = [call]
       \<and> href (fetch_url call) = ''https://x/v2/tts''
       \<and> fetch_input call = ''https://x/v2/tts'')"
  using C5_url_composition [of "steady_world (json_response 200 empty_object)" sample_client
          "get_config ''/tts'' None" start_runtime]
    C5_url_composition [of "steady_world (json_response 200 empty_object)"
          "sample_client\<lparr>HttpClient.baseUrl := ''https://x/v2''\<rparr>"
          "get_config ''tts'' None" start_runtime]
  by (auto simp: steady_world_def sample_client_def get_config_def start_runtime_def
                 strip_trailing_slashes_def strip_leading_slashes_def sample_url_text_def)

section \<open>Combining the signals\<close>

text \<open>
  Claim C6 holds for a signal that aborts after the request has begun, and fails for one that
  is aborted already: \<^verbatim>\<open>combineSignals\<close> only registers handlers for the \<^verbatim>\<open>abort\<close> event,
  which has fired by then and does not fire again. With the caller's signal (address 0)
  aborted before the call, the combined signal is not aborted, aborting the caller's signal
  again does not abort it, and the request goes through: it returns the body of the answer.
\<close>

theorem C6_already_aborted:
  "(let h = [\<lparr>aborted = True, listeners = []\<rparr>, \<lparr>aborted = False, listeners = []\<rparr>];
        (combined, h') = combineSignals h 0 1
    in is_aborted h 0 \<and> \<not> is_aborted h' combined \<and> \<not> is_aborted (abort h' 0) combined)
   \<and> (let (result, rt') =
            request sample_client (get_config ''/status'' (Some 0))
              (steady_world (json_response 200 empty_object))
              (start_runtime\<lparr>signals := [\<lparr>aborted = True, listeners = []\<rparr>]\<rparr>)
        in result = Inr (JsonData empty_object) \<and> is_aborted (signals rt') 0
           \<and> map (\<lambda>call. is_aborted (signals rt') (fetch_signal call)) (fetched rt') = [False])"
  by (simp add: run_defs sample_defs)

section \<open>What generateTTS throws\<close>

text \<open>
  Claim C1 fails on \<^verbatim>\<open>generateTTS\<close>: when the first poll answers that the job has failed,
  what is thrown is a plain \<^verbatim>\<open>Error\<close> with the message \<^verbatim>\<open>TTS generation failed\<close>, not
  an \<^verbatim>\<open>AudixaError\<close>, so it carries no kind.
\<close>

theorem C1_failed_job_error:
  "map_option fst (generateTTS (Suc (Suc 0)) sample_audixa ''{}'' None
            (job_world (empty_object\<lparr>JsonObject.status := Some ''Failed''\<rparr>)) start_runtime)
          = Some (Inl (Js (Error ''Error'' ''TTS generation failed'')))
   \<and> kind (Js (Error ''Error'' ''TTS generation failed'')) = None"
  by (simp add: run_defs sample_defs)

section \<open>Aborted requests\<close>

text \<open>
  Claim C3. Take a request whose URL is accepted. If the caller passed a signal that is not
  aborted yet and aborts it while the request waits, before the network answers and before
  the timer fires, the request throws an \<^verbatim>\<open>AudixaError\<close> of kind \<open>UNKNOWN\<close> with the message
  \<^verbatim>\<open>Request was cancelled\<close>, not one of kind \<open>TIMEOUT\<close>. If the timer fires before the network
  answers, and the caller passed no signal or has not aborted the one it passed by then, the
  request throws an \<^verbatim>\<open>AudixaError\<close> of kind \<open>TIMEOUT\<close>.
\<close>

theorem C3_abort_kinds:
  assumes accepted: "url_error w (strip_trailing_slashes (HttpClient.baseUrl c) @ ''/'' @
                       strip_leading_slashes (path config)) = None"
  shows "(RequestConfig.signal config = Some s \<and> s < length (signals rt)
            \<and> \<not> is_aborted (signals rt) s
            \<and> caller_abort_at w = Some ta \<and> now rt \<le> ta
            \<and> ta < now rt + settle_after (exchanges w (length (fetched rt)))
            \<and> ta < now rt + HttpClient.timeout c
          \<longrightarrow> (\<exists>e. fst (request c config w rt) = Inl (AudixaErr e)
                  \<and> code e = UNKNOWN \<and> AudixaError.message e = ''Request was cancelled''
                  \<and> code e \<noteq> TIMEOUT))
       \<and> (HttpClient.timeout c < settle_after (exchanges w (length (fetched rt)))
            \<and> (case RequestConfig.signal config of
                   None \<Rightarrow> True
                 | Some s' \<Rightarrow> s' < length (signals rt) \<and> \<not> is_aborted (signals rt) s'
                      \<and> (case caller_abort_at w of
                            None \<Rightarrow> True
                          | Some ta' \<Rightarrow> now rt + HttpClient.timeout c < ta'))
          \<longrightarrow> (\<exists>e. fst (request c config w rt) = Inl (AudixaErr e) \<and> code e = TIMEOUT))"
proof (intro conjI impI)
  assume "RequestConfig.signal config = Some s \<and> s < length (signals rt)
            \<and> \<not> is_aborted (signals rt) s
            \<and> caller_abort_at w = Some ta \<and> now rt \<le> ta
            \<and> ta < now rt + settle_after (exchanges w (length (fetched rt)))
            \<and> ta < now rt + HttpClient.timeout c"
  then have "fst (request c config w rt) =
               Inl (AudixaErr (AudixaError_new ''Request was cancelled'' UNKNOWN None None))"
    using request_cancelled [OF accepted] by blast
  then show "\<exists>e. fst (request c config w rt) = Inl (AudixaErr e)
                  \<and> code e = UNKNOWN \<and> AudixaError.message e = ''Request was cancelled''
                  \<and> code e \<noteq> TIMEOUT"
    by (simp add: AudixaError_new_def)
next
  assume "HttpClient.timeout c < settle_after (exchanges w (length (fetched rt)))
            \<and> (case RequestConfig.signal config of
                   None \<Rightarrow> True
                 | Some s' \<Rightarrow> s' < length (signals rt) \<and> \<not> is_aborted (signals rt) s'
                      \<and> (case caller_abort_at w of
                            None \<Rightarrow> True
                          | Some ta' \<Rightarrow> now rt + HttpClient.timeout c < ta'))"
  then have "fst (request c config w rt) = Inl (AudixaErr timeout_error)"
    using request_timed_out [OF accepted] by blast
  then show "\<exists>e. fst (request c config w rt) = Inl (AudixaErr e) \<and> code e = TIMEOUT"
    by (simp add: timeout_error_def AudixaError_new_def)
qed

theorem C3_abort_kinds_witness:
  "(\<exists>e. fst (request sample_client (get_config ''/status'' (Some 0))
              ((steady_world (json_response 200 empty_object))\<lparr>caller_abort_at := Some 3\<rparr>)
              (start_runtime\<lparr>signals := [\<lparr>aborted = False, listeners = []\<rparr>]\<rparr>))
          = Inl (AudixaErr e)
        \<and> code e = UNKNOWN \<and> AudixaError.message e = ''Request was cancelled'')
   \<and> (\<exists>e. fst (request (sample_client\<lparr>HttpClient.timeout := 4\<rparr>) (get_config ''/status'' (Some 0))
              ((steady_world (json_response 200 empty_object))\<lparr>caller_abort_at := Some 7\<rparr>)
              (start_runtime\<lparr>signals := [\<lparr>aborted = False, listeners = []\<rparr>]\<rparr>))
          = Inl (AudixaErr e)
        \<and> code e = TIMEOUT)"
  using C3_abort_kinds [where w = "(steady_world (json_response 200 empty_object))\<lparr>caller_abort_at := Some 3\<rparr>"
          and c = sample_client and config = "get_config ''/status'' (Some 0)"
          and rt = "start_runtime\<lparr>signals := [\<lparr>aborted = False, listeners = []\<rparr>]\<rparr>"
          and s = 0 and ta = 3]
    C3_abort_kinds [where w = "(steady_world (json_response 200 empty_object))\<lparr>caller_abort_at := Some 7\<rparr>"
          and c = "sample_client\<lparr>HttpClient.timeout := 4\<rparr>"
          and config = "get_config ''/status'' (Some 0)"
          and rt = "start_runtime\<lparr>signals := [\<lparr>aborted = False, listeners = []\<rparr>]\<rparr>"
          and s = 0 and ta = 7]
  by (simp add: steady_world_def sample_client_def get_config_def start_runtime_def answer_def
                is_aborted_def) blast

section \<open>The kinds that are raised\<close>

text \<open>
  No error raised by the construction of a client, by a request or by the operations
  \<^verbatim>\<open>startTTS\<close>, \<^verbatim>\<open>getStatus\<close>, \<^verbatim>\<open>getVoices\<close> and \<^verbatim>\<open>generateTTS\<close> carries the kind
  \<open>UNAUTHORIZED\<close>. The construction raises \<open>INVALID_PARAMS\<close> only; where \<^verbatim>\<open>new URL\<close> accepts
  every text, what a request and the three operations that are one request raise is an
  \<^verbatim>\<open>AudixaError\<close> of one of the other eight kinds.
\<close>

lemma unauthorized_never_raised:
  "(Audixa_new key options = Inl x \<longrightarrow> kind x = Some INVALID_PARAMS)
   \<and> (fst (request c config w rt) = Inl x \<longrightarrow> kind x \<noteq> Some UNAUTHORIZED)
   \<and> (fst (startTTS a payload ro w rt) = Inl x \<longrightarrow> kind x \<noteq> Some UNAUTHORIZED)
   \<and> (fst (getStatus a gid ro w rt) = Inl x \<longrightarrow> kind x \<noteq> Some UNAUTHORIZED)
   \<and> (fst (getVoices a model ro w rt) = Inl x \<longrightarrow> kind x \<noteq> Some UNAUTHORIZED)
   \<and> (generateTTS fuel a payload go w rt = Some (Inl x, rt') \<longrightarrow> kind x \<noteq> Some UNAUTHORIZED)
   \<and> ((\<forall>address. url_error w address = None) \<and>
        (fst (request c config w rt) = Inl x \<or> fst (startTTS a payload ro w rt) = Inl x
         \<or> fst (getStatus a gid ro w rt) = Inl x \<or> fst (getVoices a model ro w rt) = Inl x)
       \<longrightarrow> (\<exists>e. x = AudixaErr e \<and> code e \<noteq> UNAUTHORIZED))"
proof -
  have new: "Audixa_new key options = Inl x \<longrightarrow> kind x = Some INVALID_PARAMS"
    by (auto simp: Audixa_new_def HttpClient_new_def AudixaError_new_def
             split: sum.splits if_splits)
  have req: "kind x \<noteq> Some UNAUTHORIZED" if "fst (request c' config' w rt) = Inl x"
    for c' config'
    using that by (rule request_throws(1))
  have aud: "\<exists>e. x = AudixaErr e \<and> code e \<noteq> UNAUTHORIZED"
    if "\<forall>address. url_error w address = None" "fst (request c' config' w rt) = Inl x"
    for c' config'
  proof -
    from that obtain e where "x = AudixaErr e" using request_throws(2) by blast
    with req [OF that(2)] show ?thesis by simp
  qed
  show ?thesis
    using new req aud generateTTS_throws [of fuel a payload go w rt x rt']
    unfolding startTTS_def getStatus_def getVoices_def
    by blast
qed

lemma unauthorized_never_raised_example:
  "(\<exists>x. Audixa_new (JsString []) None = Inl x \<and> kind x = Some INVALID_PARAMS)
   \<and> (\<exists>x. fst (request sample_client (get_config ''/status'' None)
               (steady_world (json_response 401 empty_object)) start_runtime) = Inl x
          \<and> kind x = Some INVALID_API_KEY \<and> kind x \<noteq> Some UNAUTHORIZED)
   \<and> (\<exists>x rt'. generateTTS (Suc (Suc 0)) sample_audixa ''{}'' None
               (job_world (empty_object\<lparr>JsonObject.status := Some ''Failed''\<rparr>)) start_runtime
             = Some (Inl x, rt')
          \<and> kind x \<noteq> Some UNAUTHORIZED)"
proof -
  let ?x = "AudixaErr (AudixaError_new ''API key is required and must be a string''
                         INVALID_PARAMS None None)"
  let ?y = "AudixaErr (fromResponse 401 (Some (JsonData empty_object)))"
  let ?w = "job_world (empty_object\<lparr>JsonObject.status := Some ''Failed''\<rparr>)"
  have 1: "Audixa_new (JsString []) None = Inl ?x"
    by (simp add: Audixa_new_def HttpClient_new_def)
  have 2: "fst (request sample_client (get_config ''/status'' None)
               (steady_world (json_response 401 empty_object)) start_runtime) = Inl ?y"
    by (simp add: run_defs sample_defs string_of_nat.simps)
  have 3: "\<forall>address. url_error (steady_world (json_response 401 empty_object)) address = None"
    by (simp add: steady_world_def)
  obtain rt' where 4: "generateTTS (Suc (Suc 0)) sample_audixa ''{}'' None ?w start_runtime
                         = Some (Inl (Js (Error ''Error'' ''TTS generation failed'')), rt')"
    by (simp add: run_defs sample_defs)
  from unauthorized_never_raised [where key = "JsString []" and options = None and x = ?x] 1
  have a: "kind ?x = Some INVALID_PARAMS" by blast
  from unauthorized_never_raised [where w = "steady_world (json_response 401 empty_object)"
          and c = sample_client and config = "get_config ''/status'' None"
          and rt = start_runtime and x = ?y] 2 3
  have b: "kind ?y \<noteq> Some UNAUTHORIZED" by blast
  have b': "kind ?y = Some INVALID_API_KEY"
    by (simp add: fromResponse_def getErrorCodeFromStatus_def AudixaError_new_def Let_def)
  from unauthorized_never_raised [where fuel = "Suc (Suc 0)" and a = sample_audixa
          and payload = "''{}''" and go = None and w = ?w and rt = start_runtime
          and x = "Js (Error ''Error'' ''TTS generation failed'')" and rt' = rt'] 4
  have c: "kind (Js (Error ''Error'' ''TTS generation failed'')) \<noteq> Some UNAUTHORIZED"
    by blast
  show ?thesis using 1 2 4 a b b' c by blast
qed

text \<open>
  Claim C10: the kind \<open>UNAUTHORIZED\<close> is never raised, and every error raised by the
  construction, a request or the operations carries one of the other eight kinds. The first
  half is the lemma above. The second half fails on \<^verbatim>\<open>generateTTS\<close>, by the defect of claim C1: when the maximum wait is exceeded,
  what is thrown is a plain \<^verbatim>\<open>Error\<close>, which carries none of the kinds, where the timeout of
  a request throws an \<^verbatim>\<open>AudixaError\<close> of kind \<open>TIMEOUT\<close>.
\<close>

theorem C10_max_wait_error_has_no_kind:
  "map_option fst
     (generateTTS (Suc (Suc 0)) sample_audixa ''{}''
        (Some \<lparr>RequestOptions.signal = None, pollInterval = Some 1, maxWaitTime = Some 0\<rparr>)
        (job_world (empty_object\<lparr>JsonObject.status := Some ''Generating''\<rparr>)) start_runtime)
     = Some (Inl (Js (Error ''Error'' ''Generation timed out after 0ms'')))
   \<and> kind (Js (Error ''Error'' ''Generation timed out after 0ms'')) = None"
  by (simp add: run_defs sample_defs string_of_nat.simps)

section \<open>Waiting for a job\<close>

text \<open>
  Claim C7. When \<^verbatim>\<open>generateTTS\<close> returns, it returns a URL that is not empty, and the last
  thing it did was a poll whose answer had the status \<^verbatim>\<open>Completed\<close> and that URL. In a round
  of the loop that is not past the maximum wait and not cancelled, an answer \<^verbatim>\<open>Completed\<close> with
  a URL (a string that is not empty) ends the loop with that URL; an answer \<^verbatim>\<open>Completed\<close>
  with no URL (none, \<^verbatim>\<open>null\<close>, or the empty string) does not end it: the loop sleeps and goes
  into its next round, exactly as it does on the answer \<^verbatim>\<open>Generating\<close>.
\<close>

theorem C7_completed_with_url:
  "(generateTTS fuel a payload options w rt = Some (Inr u, rt') \<longrightarrow>
      u \<noteq> [] \<and>
      (\<exists>gid rt0 d.
          getStatus a gid (Some \<lparr>RequestOptions.signal =
                                   Option.bind options RequestOptions.signal\<rparr>) w rt0
            = (Inr d, rt')
          \<and> get_prop JsonObject.status (Some d) = Some ''Completed''
          \<and> get_prop JsonObject.url (Some d) = Some u))
   \<and> (\<not> maxWait < now rt - start
        \<and> \<not> (case sig of None \<Rightarrow> False | Some s \<Rightarrow> is_aborted (signals rt) s)
        \<and> getStatus a gid (Some \<lparr>RequestOptions.signal = sig\<rparr>) w rt = (Inr d, rtn)
        \<and> get_prop JsonObject.status (Some d) = Some ''Completed''
        \<and> get_prop JsonObject.url (Some d) = Some v \<and> v \<noteq> [] \<longrightarrow>
      poll (Suc n) a gid start interval maxWait sig w rt = Some (Inr v, rtn))
   \<and> (\<not> maxWait < now rt - start
        \<and> \<not> (case sig of None \<Rightarrow> False | Some s \<Rightarrow> is_aborted (signals rt) s)
        \<and> getStatus a gid (Some \<lparr>RequestOptions.signal = sig\<rparr>) w rt = (Inr d, rtn)
        \<and> (get_prop JsonObject.status (Some d) = Some ''Generating''
            \<or> get_prop JsonObject.status (Some d) = Some ''Completed''
               \<and> (get_prop JsonObject.url (Some d) = None
                   \<or> get_prop JsonObject.url (Some d) = Some [])) \<longrightarrow>
      poll (Suc n) a gid start interval maxWait sig w rt =
        poll n a gid start interval maxWait sig w (sleep w sig interval rtn))"
proof -
  let ?sig = "Option.bind options RequestOptions.signal"
  have returns: "generateTTS fuel a payload options w rt = Some (Inr u, rt') \<longrightarrow>
      u \<noteq> [] \<and>
      (\<exists>gid rt0 d.
          getStatus a gid (Some \<lparr>RequestOptions.signal = ?sig\<rparr>) w rt0 = (Inr d, rt')
          \<and> get_prop JsonObject.status (Some d) = Some ''Completed''
          \<and> get_prop JsonObject.url (Some d) = Some u)"
  proof
    assume run: "generateTTS fuel a payload options w rt = Some (Inr u, rt')"
    obtain res rt2 where "startTTS a payload (Some \<lparr>RequestOptions.signal = ?sig\<rparr>) w rt
                            = (res, rt2)"
      by (cases "startTTS a payload (Some \<lparr>RequestOptions.signal = ?sig\<rparr>) w rt")
    with run obtain gid' start' interval' maxWait' where
      "poll fuel a gid' start' interval' maxWait' ?sig w rt2 = Some (Inr u, rt')"
      by (auto simp: generateTTS_def Let_def split: sum.splits)
    from poll_returns [OF this]
    show "u \<noteq> [] \<and>
      (\<exists>gid rt0 d.
          getStatus a gid (Some \<lparr>RequestOptions.signal = ?sig\<rparr>) w rt0 = (Inr d, rt')
          \<and> get_prop JsonObject.status (Some d) = Some ''Completed''
          \<and> get_prop JsonObject.url (Some d) = Some u)"
      by blast
  qed
  have finishes: "\<not> maxWait < now rt - start
        \<and> \<not> (case sig of None \<Rightarrow> False | Some s \<Rightarrow> is_aborted (signals rt) s)
        \<and> getStatus a gid (Some \<lparr>RequestOptions.signal = sig\<rparr>) w rt = (Inr d, rtn)
        \<and> get_prop JsonObject.status (Some d) = Some ''Completed''
        \<and> get_prop JsonObject.url (Some d) = Some v \<and> v \<noteq> [] \<longrightarrow>
      poll (Suc n) a gid start interval maxWait sig w rt = Some (Inr v, rtn)"
    by (simp add: truthy_def js_or_string_def)
  have goes_on: "\<not> maxWait < now rt - start
        \<and> \<not> (case sig of None \<Rightarrow> False | Some s \<Rightarrow> is_aborted (signals rt) s)
        \<and> getStatus a gid (Some \<lparr>RequestOptions.signal = sig\<rparr>) w rt = (Inr d, rtn)
        \<and> (get_prop JsonObject.status (Some d) = Some ''Generating''
            \<or> get_prop JsonObject.status (Some d) = Some ''Completed''
               \<and> (get_prop JsonObject.url (Some d) = None
                   \<or> get_prop JsonObject.url (Some d) = Some [])) \<longrightarrow>
      poll (Suc n) a gid start interval maxWait sig w rt =
        poll n a gid start interval maxWait sig w (sleep w sig interval rtn)"
    by (auto simp: truthy_def)
  show ?thesis
    by (rule conjI [OF returns conjI [OF finishes goes_on]])
qed

theorem C7_completed_with_url_witness:
  "(\<exists>rt'. generateTTS (Suc (Suc 0)) sample_audixa ''{}'' None
             (job_world (empty_object\<lparr>JsonObject.status := Some ''Completed'',
                                       url := Some ''https://cdn/a.mp3''\<rparr>)) start_runtime
           = Some (Inr ''https://cdn/a.mp3'', rt'))
   \<and> (\<exists>rt1. getStatus sample_audixa ''job-1'' (Some \<lparr>RequestOptions.signal = None\<rparr>)
               (steady_world (json_response 200
                  (empty_object\<lparr>JsonObject.status := Some ''Completed''\<rparr>))) start_runtime
             = (Inr (JsonData (empty_object\<lparr>JsonObject.status := Some ''Completed''\<rparr>)), rt1)
          \<and> poll (Suc (Suc 0)) sample_audixa ''job-1'' 0 1000 100 None
               (steady_world (json_response 200
                  (empty_object\<lparr>JsonObject.status := Some ''Completed''\<rparr>))) start_runtime
             = poll (Suc 0) sample_audixa ''job-1'' 0 1000 100 None
                 (steady_world (json_response 200
                    (empty_object\<lparr>JsonObject.status := Some ''Completed''\<rparr>)))
                 (sleep (steady_world (json_response 200
                    (empty_object\<lparr>JsonObject.status := Some ''Completed''\<rparr>))) None 1000 rt1))"
proof -
  let ?w = "job_world (empty_object\<lparr>JsonObject.status := Some ''Completed'',
                                     url := Some ''https://cdn/a.mp3''\<rparr>)"
  let ?d = "JsonData (empty_object\<lparr>JsonObject.status := Some ''Completed''\<rparr>)"
  let ?v = "steady_world (json_response 200 (empty_object\<lparr>JsonObject.status := Some ''Completed''\<rparr>))"
  obtain rt' where run: "generateTTS (Suc (Suc 0)) sample_audixa ''{}'' None ?w start_runtime
                           = Some (Inr ''https://cdn/a.mp3'', rt')"
    by (simp add: run_defs sample_defs)
  obtain rt1 where st: "getStatus sample_audixa ''job-1'' (Some \<lparr>RequestOptions.signal = None\<rparr>)
                          ?v start_runtime = (Inr ?d, rt1)"
    by (simp add: run_defs sample_defs)
  have pre: "\<not> 100 < now start_runtime - 0
        \<and> \<not> (case None of None \<Rightarrow> False | Some s \<Rightarrow> is_aborted (signals start_runtime) s)
        \<and> getStatus sample_audixa ''job-1'' (Some \<lparr>RequestOptions.signal = None\<rparr>)
             ?v start_runtime = (Inr ?d, rt1)
        \<and> (get_prop JsonObject.status (Some ?d) = Some ''Generating''
            \<or> get_prop JsonObject.status (Some ?d) = Some ''Completed''
               \<and> (get_prop JsonObject.url (Some ?d) = None
                   \<or> get_prop JsonObject.url (Some ?d) = Some []))"
    using st by (simp add: start_runtime_def get_prop_def empty_object_def)
  from C7_completed_with_url [where fuel = "Suc (Suc 0)" and a = sample_audixa
         and payload = "''{}''" and options = None and w = ?w and rt = start_runtime
         and u = "''https://cdn/a.mp3''" and rt' = rt'] run
  have "''https://cdn/a.mp3'' \<noteq> []" by blast
  from C7_completed_with_url [where a = sample_audixa and w = ?v and rt = start_runtime
         and maxWait = 100 and start = 0 and sig = None and gid = "''job-1''" and d = ?d
         and rtn = rt1 and n = "Suc 0" and interval = 1000] pre
  have "poll (Suc (Suc 0)) sample_audixa ''job-1'' 0 1000 100 None ?v start_runtime
          = poll (Suc 0) sample_audixa ''job-1'' 0 1000 100 None ?v (sleep ?v None 1000 rt1)"
    by blast
  with run st show ?thesis by blast
qed

text \<open>
  Claim C8. Run \<^verbatim>\<open>generateTTS\<close> with a maximum wait of 100 ms, with no cancellation, the
  submission accepted, and every poll answered in time with a status that is not final
  (not \<^verbatim>\<open>Failed\<close>, and not \<^verbatim>\<open>Completed\<close> with a URL); the clock moves in every round (the
  interval or the time of the poll is not zero). Then the loop ends: with more than 101
  rounds allowed the run throws the error \<^verbatim>\<open>Generation timed out after 100ms\<close>. At that
  moment more than 100 ms have passed since the submission returned, at most one round
  (a poll and a sleep) more than that, and the second call of \<^verbatim>\<open>fetch\<close> of the run, after
  the submission, was a \<^verbatim>\<open>GET\<close> of \<^verbatim>\<open>/status\<close>. The error is checked for at the start of each
  round, so it is raised at the first round that starts after the 100 ms. It is a plain
  \<^verbatim>\<open>Error\<close>.
\<close>

theorem C8_max_wait:
  fixes a :: Audixa and options :: "GenerateOptions option"
  defines "interval \<equiv> (case Option.bind options pollInterval of None \<Rightarrow> 1000 | Some p \<Rightarrow> p)"
  assumes accepted: "\<forall>address. url_error w address = None"
    and calm: "caller_abort_at w = None"
    and live: "case Option.bind options RequestOptions.signal of
                 None \<Rightarrow> True
               | Some s \<Rightarrow> \<not> is_aborted (signals rt) s"
    and max_wait: "Option.bind options maxWaitTime = Some 100"
    and submitted: "settle_with (exchanges w (length (fetched rt))) = Inr ra" "ok ra"
        "read_body ra = Inr da"
        "settle_after (exchanges w (length (fetched rt))) < HttpClient.timeout (client a)"
    and pending: "\<forall>n > length (fetched rt).
        \<exists>r d. settle_with (exchanges w n) = Inr r \<and> ok r \<and> read_body r = Inr d
          \<and> settle_after (exchanges w n) < HttpClient.timeout (client a)
          \<and> get_prop JsonObject.status (Some d) \<noteq> Some ''Failed''
          \<and> \<not> (get_prop JsonObject.status (Some d) = Some ''Completed''
                \<and> truthy (get_prop JsonObject.url (Some d)))
          \<and> 0 < interval + settle_after (exchanges w n)"
  shows "\<exists>rt' submit status_call calls.
           (\<forall>fuel > 101. generateTTS fuel a payload options w rt =
              Some (Inl (Js (Error ''Error'' ''Generation timed out after 100ms'')), rt'))
           \<and> 100 < now rt' - (now rt + settle_after (exchanges w (length (fetched rt))))
           \<and> now rt' \<le> now rt + settle_after (exchanges w (length (fetched rt))) + 100
                         + HttpClient.timeout (client a) + interval
           \<and> fetched rt' = fetched rt @ submit # status_call # calls
           \<and> fetch_method status_call = GET
           \<and> href (fetch_url status_call) =
                strip_trailing_slashes (HttpClient.baseUrl (client a)) @ ''/status''"
proof -
  let ?sig = "Option.bind options RequestOptions.signal"
  let ?start = "now rt + settle_after (exchanges w (length (fetched rt)))"
  let ?gid = "case get_prop JsonObject.generation_id (Some da) of
                None \<Rightarrow> ''undefined'' | Some g \<Rightarrow> g"
  from startTTS_answered [OF accepted calm submitted, of payload
         "Some \<lparr>RequestOptions.signal = ?sig\<rparr>"]
  obtain rt1 submit where
    st: "startTTS a payload (Some \<lparr>RequestOptions.signal = ?sig\<rparr>) w rt = (Inr da, rt1)"
    and t1: "now rt1 = ?start"
    and f1: "fetched rt1 = fetched rt @ [submit]"
    and s1: "\<forall>x. is_aborted (signals rt1) x = is_aborted (signals rt) x"
    by blast
  have gen: "generateTTS fuel a payload options w rt =
               poll fuel a ?gid ?start interval 100 ?sig w rt1" for fuel
    using st t1 max_wait by (simp add: generateTTS_def Let_def interval_def)
  have p1: "length (fetched rt) < length (fetched rt1)" using f1 by simp
  have p2: "?start \<le> now rt1" using t1 by simp
  have p3: "case ?sig of None \<Rightarrow> True | Some s \<Rightarrow> \<not> is_aborted (signals rt1) s"
    using live s1 by (simp split: option.splits)
  have pend: "\<exists>r d. settle_with (exchanges w n) = Inr r \<and> ok r \<and> read_body r = Inr d
          \<and> settle_after (exchanges w n) < HttpClient.timeout (client a)
          \<and> get_prop JsonObject.status (Some d) \<noteq> Some ''Failed''
          \<and> \<not> (get_prop JsonObject.status (Some d) = Some ''Completed''
                \<and> truthy (get_prop JsonObject.url (Some d)))
          \<and> 0 < interval + settle_after (exchanges w n)"
    if "length (fetched rt) < n" for n
    using pending that by blast
  from poll_pending [where k = "length (fetched rt)" and I = interval and M = 100
         and start = ?start and sig = ?sig and gid = ?gid and rt = rt1,
         OF accepted calm pend p1 p2 p3]
  obtain rt' more where
    run: "\<forall>fuel. ?start + 100 + 1 - now rt1 < fuel \<longrightarrow>
            poll fuel a ?gid ?start interval 100 ?sig w rt1 =
              Some (Inl (Js (Error ''Error''
                      (''Generation timed out after '' @ string_of_nat 100 @ ''ms''))), rt')"
    and late: "100 < now rt' - ?start"
    and log: "fetched rt' = fetched rt1 @ more"
    and first: "now rt1 \<le> ?start + 100 \<longrightarrow>
             now rt' \<le> ?start + 100 + HttpClient.timeout (client a) + interval
             \<and> more \<noteq> [] \<and> fetch_method (hd more) = GET
             \<and> href (fetch_url (hd more)) =
                  strip_trailing_slashes (HttpClient.baseUrl (client a)) @ ''/status''"
    by blast
  have wording: "''Generation timed out after '' @ string_of_nat 100 @ ''ms'' =
                ''Generation timed out after 100ms''"
    by (simp add: string_of_nat.simps)
  from first t1 obtain status_call calls where
    more: "more = status_call # calls" "fetch_method status_call = GET"
      "href (fetch_url status_call) =
         strip_trailing_slashes (HttpClient.baseUrl (client a)) @ ''/status''"
    and time: "now rt' \<le> ?start + 100 + HttpClient.timeout (client a) + interval"
    by (cases more) auto
  have "generateTTS fuel a payload options w rt =
          Some (Inl (Js (Error ''Error'' ''Generation timed out after 100ms'')), rt')"
    if "101 < fuel" for fuel
    using run that t1 gen wording by simp
  then show ?thesis
    using late time log f1 more
    by (intro exI [of _ rt'] exI [of _ submit] exI [of _ status_call] exI [of _ calls]) auto
qed

theorem C8_max_wait_witness:
  "\<exists>rt'. generateTTS 102 sample_audixa ''{}''
            (Some \<lparr>RequestOptions.signal = None, pollInterval = None, maxWaitTime = Some 100\<rparr>)
            (job_world (empty_object\<lparr>JsonObject.status := Some ''Generating''\<rparr>)) start_runtime
          = Some (Inl (Js (Error ''Error'' ''Generation timed out after 100ms'')), rt')
        \<and> 100 < now rt' - 5
        \<and> (\<exists>submit status_call calls. fetched rt' = submit # status_call # calls
              \<and> href (fetch_url status_call) = ''https://x/v2/status'')"
proof -
  let ?w = "job_world (empty_object\<lparr>JsonObject.status := Some ''Generating''\<rparr>)"
  let ?o = "Some \<lparr>RequestOptions.signal = None, pollInterval = None, maxWaitTime = Some 100\<rparr>"
  let ?ra = "json_response 200 (empty_object\<lparr>generation_id := Some ''job-1''\<rparr>)"
  let ?rb = "json_response 200 (empty_object\<lparr>JsonObject.status := Some ''Generating''\<rparr>)"
  have 1: "\<forall>address. url_error ?w address = None" by (simp add: job_world_def)
  have 2: "caller_abort_at ?w = None" by (simp add: job_world_def)
  have 3: "case Option.bind ?o RequestOptions.signal of None \<Rightarrow> True
           | Some s \<Rightarrow> \<not> is_aborted (signals start_runtime) s" by simp
  have 4: "Option.bind ?o maxWaitTime = Some 100" by simp
  have 5: "settle_with (exchanges ?w (length (fetched start_runtime))) = Inr ?ra"
    by (simp add: job_world_def start_runtime_def answer_def)
  have 6: "ok ?ra" by (simp add: ok_def json_response_def)
  have 7: "read_body ?ra = Inr (JsonData (empty_object\<lparr>generation_id := Some ''job-1''\<rparr>))"
    by (simp add: read_body_def json_response_def)
  have 8: "settle_after (exchanges ?w (length (fetched start_runtime)))
             < HttpClient.timeout (client sample_audixa)"
    by (simp add: job_world_def start_runtime_def answer_def sample_audixa_def sample_client_def)
  have 9: "\<forall>n > length (fetched start_runtime).
        \<exists>r d. settle_with (exchanges ?w n) = Inr r \<and> ok r \<and> read_body r = Inr d
          \<and> settle_after (exchanges ?w n) < HttpClient.timeout (client sample_audixa)
          \<and> get_prop JsonObject.status (Some d) \<noteq> Some ''Failed''
          \<and> \<not> (get_prop JsonObject.status (Some d) = Some ''Completed''
                \<and> truthy (get_prop JsonObject.url (Some d)))
          \<and> 0 < (case Option.bind ?o pollInterval of None \<Rightarrow> 1000 | Some p \<Rightarrow> p)
                  + settle_after (exchanges ?w n)"
    by (simp add: job_world_def start_runtime_def answer_def sample_audixa_def sample_client_def
                  ok_def json_response_def read_body_def get_prop_def empty_object_def)
  from C8_max_wait [OF 1 2 3 4 5 6 7 8 9, of "''{}''"]
  obtain rt' submit status_call calls where
    run: "\<forall>fuel>101. generateTTS fuel sample_audixa ''{}'' ?o ?w start_runtime =
                 Some (Inl (Js (Error ''Error'' ''Generation timed out after 100ms'')), rt')"
    and late: "100 < now rt' - (now start_runtime
                 + settle_after (exchanges ?w (length (fetched start_runtime))))"
    and log: "fetched rt' = fetched start_runtime @ submit # status_call # calls"
    and call: "href (fetch_url status_call) =
                strip_trailing_slashes (HttpClient.baseUrl (client sample_audixa)) @ ''/status''"
    by blast
  from run have "generateTTS 102 sample_audixa ''{}'' ?o ?w start_runtime =
                 Some (Inl (Js (Error ''Error'' ''Generation timed out after 100ms'')), rt')"
    by simp
  moreover from late have "100 < now rt' - 5"
    by (simp add: job_world_def start_runtime_def answer_def)
  moreover from log have "fetched rt' = submit # status_call # calls"
    by (simp add: start_runtime_def)
  moreover from call have "href (fetch_url status_call) = ''https://x/v2/status''"
    by (simp add: sample_audixa_def sample_client_def strip_trailing_slashes_def)
  ultimately show ?thesis by blast
qed

end
